theory Spec2Isabelle
  imports Main "HOL-Library.Monad_Syntax"
begin

section \<open>JavaScript values\<close>

text \<open>
  The result viewer receives its \<^verbatim>\<open>gameState\<close> prop typed \<^verbatim>\<open>any\<close>, and the status poller
  reads fields of whatever \<^verbatim>\<open>response.json()\<close> produced. Both are modelled over the values
  JSON can carry, plus \<^verbatim>\<open>undefined\<close>. Numbers are restricted to integers: the sources never
  compute with numbers taken from the data, they only test them for truthiness and compare
  a \<^verbatim>\<open>length\<close> against zero. An object is the list of its own properties in insertion
  order, with distinct keys.
\<close>

datatype jsval =
    Undefined
  | Null
  | Bool bool
  | Num int
  | Str string
  | Arr "jsval list"
  | Obj "(string \<times> jsval) list"

text \<open>Truthiness, as used by \<^verbatim>\<open>!x\<close>, \<^verbatim>\<open>x && y\<close> and \<^verbatim>\<open>if (x)\<close>.\<close>

fun truthy :: "jsval \<Rightarrow> bool" where
  "truthy Undefined = False"
| "truthy Null = False"
| "truthy (Bool b) = b"
| "truthy (Num n) = (n \<noteq> 0)"
| "truthy (Str s) = (s \<noteq> [])"
| "truthy (Arr xs) = True"
| "truthy (Obj kvs) = True"

text \<open>Decimal rendering of array indices and numbers.\<close>

fun show_nat :: "nat \<Rightarrow> string" where
  "show_nat n =
     (if n < 10 then [''0123456789'' ! n]
      else show_nat (n div 10) @ [''0123456789'' ! (n mod 10)])"

declare show_nat.simps [simp del]

definition show_int :: "int \<Rightarrow> string" where
  "show_int i = (if i < 0 then CHR ''-'' # show_nat (nat (- i)) else show_nat (nat i))"

text \<open>
  The own enumerable properties of a value, in the order \<^verbatim>\<open>Object.keys\<close> lists them:
  the entries of an object, the indices of an array, the indices of a string. (For an
  object JavaScript lists integer-like keys first; the order matters here only for the
  order of the rendered artwork entries.)
\<close>

fun own_props :: "jsval \<Rightarrow> (string \<times> jsval) list" where
  "own_props (Obj kvs) = kvs"
| "own_props (Arr xs) = zip (map show_nat [0..<length xs]) xs"
| "own_props (Str s) = zip (map show_nat [0..<length s]) (map (\<lambda>c. Str [c]) s)"
| "own_props v = []"

text \<open>
  Property read \<^verbatim>\<open>v.p\<close> and \<^verbatim>\<open>v[p]\<close>. Reading a property of \<^verbatim>\<open>undefined\<close> or \<^verbatim>\<open>null\<close>
  throws a TypeError, which is the result \<open>None\<close>; a missing property reads as
  \<^verbatim>\<open>undefined\<close>. Arrays and strings also answer \<^verbatim>\<open>length\<close>. Inherited function-valued
  properties are left out: the property names the sources read are data field names.
\<close>

fun get_prop :: "jsval \<Rightarrow> string \<Rightarrow> jsval option" where
  "get_prop Undefined p = None"
| "get_prop Null p = None"
| "get_prop v p =
     (case map_of (own_props v) p of
        Some x \<Rightarrow> Some x
      | None \<Rightarrow>
          (if p = ''length'' then
             (case v of
                Arr xs \<Rightarrow> Some (Num (int (length xs)))
              | Str s \<Rightarrow> Some (Num (int (length s)))
              | _ \<Rightarrow> Some Undefined)
           else Some Undefined))"

text \<open>\<^verbatim>\<open>Object.keys(v)\<close>; throws on \<^verbatim>\<open>undefined\<close> and \<^verbatim>\<open>null\<close>.\<close>

fun object_keys :: "jsval \<Rightarrow> string list option" where
  "object_keys Undefined = None"
| "object_keys Null = None"
| "object_keys v = Some (map fst (own_props v))"

text \<open>
  String conversion, as \<^verbatim>\<open>Array.prototype.join\<close> applies it to the elements of an array:
  \<^verbatim>\<open>undefined\<close> and \<^verbatim>\<open>null\<close> elements contribute the empty string.
\<close>

fun intercalate :: "string \<Rightarrow> string list \<Rightarrow> string" where
  "intercalate sep [] = []"
| "intercalate sep [s] = s"
| "intercalate sep (s # t # ss) = s @ sep @ intercalate sep (t # ss)"

fun to_string :: "jsval \<Rightarrow> string" where
  "to_string Undefined = ''undefined''"
| "to_string Null = ''null''"
| "to_string (Bool b) = (if b then ''true'' else ''false'')"
| "to_string (Num n) = show_int n"
| "to_string (Str s) = s"
| "to_string (Arr xs) =
     intercalate '',''
       (map (\<lambda>x. if x = Undefined \<or> x = Null then [] else to_string x) xs)"
| "to_string (Obj kvs) = ''[object Object]''"

definition join_elems :: "string \<Rightarrow> jsval list \<Rightarrow> string" where
  "join_elems sep xs =
     intercalate sep (map (\<lambda>x. if x = Undefined \<or> x = Null then [] else to_string x) xs)"

text \<open>
  \<^verbatim>\<open>v.join(sep)\<close>: only arrays have the method; on \<^verbatim>\<open>undefined\<close> and \<^verbatim>\<open>null\<close> the property
  read throws, on any other value the call of a non-function throws.
\<close>

fun js_join :: "jsval \<Rightarrow> string \<Rightarrow> jsval option" where
  "js_join (Arr xs) sep = Some (Str (join_elems sep xs))"
| "js_join v sep = None"

text \<open>
  The comparison \<^verbatim>\<open>v > 0\<close>. Both operands are converted to numbers; \<^verbatim>\<open>NaN\<close> compares
  false. Converting a string to a number is the language's \<^verbatim>\<open>StringToNumber\<close>, which is
  taken as the parameter \<open>str2num\<close> (\<open>None\<close> for \<^verbatim>\<open>NaN\<close>), so that nothing proved below
  depends on how it reads a particular string. An array converts through its string
  form, an object to \<^verbatim>\<open>NaN\<close>.
\<close>

fun to_number :: "(string \<Rightarrow> int option) \<Rightarrow> jsval \<Rightarrow> int option" where
  "to_number str2num Undefined = None"
| "to_number str2num Null = Some 0"
| "to_number str2num (Bool b) = Some (if b then 1 else 0)"
| "to_number str2num (Num n) = Some n"
| "to_number str2num (Str s) = str2num s"
| "to_number str2num (Arr xs) = str2num (to_string (Arr xs))"
| "to_number str2num (Obj kvs) = None"

definition gt_zero :: "(string \<Rightarrow> int option) \<Rightarrow> jsval \<Rightarrow> bool" where
  "gt_zero str2num v = (case to_number str2num v of Some n \<Rightarrow> 0 < n | None \<Rightarrow> False)"

section \<open>The React element tree\<close>

text \<open>
  What a component function returns. \<open>Text v\<close> is a JavaScript value in child position
  (a string or number is shown as text; \<^verbatim>\<open>null\<close>, \<^verbatim>\<open>undefined\<close> and booleans show
  nothing), \<open>Markdown v\<close> is \<^verbatim>\<open><ReactMarkdown rehypePlugins={[rehypeRaw]}>{v}</ReactMarkdown>\<close>,
  \<open>Nodes\<close> is an array of children as \<^verbatim>\<open>.map\<close> returns it and \<open>Fragment\<close> is
  \<^verbatim>\<open><>...</>\<close>.
\<close>

datatype node =
    Element string "(string \<times> jsval) list" "node list"
  | Text jsval
  | Markdown jsval
  | Nodes "node list"
  | Fragment "node list"

text \<open>
  \<^verbatim>\<open>v.map(f)\<close> in child position. Only arrays have the method; the callback may itself
  throw, which aborts the whole render.
\<close>

fun js_map :: "jsval \<Rightarrow> (jsval \<Rightarrow> node option) \<Rightarrow> node option" where
  "js_map (Arr xs) f = map_option Nodes (those (map f xs))"
| "js_map v f = None"

definition className :: "string \<Rightarrow> string \<times> jsval" where
  "className c = (''className'', Str c)"

section \<open>The built-in sample game (\<^verbatim>\<open>lib/dummy-data.ts\<close>)\<close>

text \<open>
  \<^verbatim>\<open>dummyGameState\<close> is one object literal; it is given field by field, in the order of
  the source, and assembled at the end.
\<close>

definition dummy_game_design :: jsval where
  "dummy_game_design =
    Obj
     [(''game_name'', Str ''Cosmic Rift''),
      (''concept'', Str ''A fast-paced, competitive deck-building game where players take on the role of celestial beings vying for control of the cosmos. Players use their influence to acquire powerful artifacts, manipulate stellar events, and ultimately shatter their opponent's celestial core.''),
      (''core_mechanics'', Arr
       [Str ''Deck Building'',
        Str ''Hand Management'',
        Str ''Direct Attack'']),
      (''win_condition'', Str ''The first player to reduce their opponent's celestial core from 20 to 0 is the winner.''),
      (''game_flow'', Str ''\<newline>*   **Start of Game:** Each player starts with a deck of 10 basic cards (7 'Stardust' for energy, 3 'Rift Bolt' for attack).\<newline>*   **The Turn:** A player's turn consists of three phases:\<newline>    1.  **Draw Phase:** Draw 5 cards from your deck.\<newline>    2.  **Main Phase:** Play cards from your hand to generate energy, attack the opponent, or acquire new cards from the central 'Nebula' row.\<newline>    3.  **End Phase:** Discard your hand and any unused energy.''),
      (''starter_cards'', Arr
       [Obj
         [(''name'', Str ''Stardust''),
          (''type'', Str ''Resource''),
          (''cost'', Str ''0''),
          (''text'', Str ''Gain 1 Energy.''),
          (''flavor_text'', Str ''The raw essence of creation.'')],
        Obj
         [(''name'', Str ''Rift Bolt''),
          (''type'', Str ''Attack''),
          (''cost'', Str ''1''),
          (''text'', Str ''Deal 1 damage to the opponent.''),
          (''flavor_text'', Str ''A simple, yet effective tear in reality.'')],
        Obj
         [(''name'', Str ''Nebula Worm''),
          (''type'', Str ''Creature''),
          (''cost'', Str ''3''),
          (''text'', Str ''Deal 3 damage. You may banish a card from your discard pile.''),
          (''flavor_text'', Str ''It feasts on dying stars.'')]])]"

definition dummy_rulebook :: jsval where
  "dummy_rulebook =
    Str ''\<newline># Cosmic Rift Rulebook\<newline>\<newline>## Introduction\<newline>Welcome to Cosmic Rift! You are a celestial being, a master of cosmic energy. Your goal is to shatter your opponent's core while protecting your own.\<newline>\<newline>## Gameplay\<newline>Players take turns playing cards, generating energy, and attacking. The central 'Nebula' contains powerful cards that can be acquired to improve your deck.\<newline>\<newline>## Winning\<newline>Reduce the opponent's core health to 0 to win the game!\<newline>''"

definition dummy_art_style_guide :: jsval where
  "dummy_art_style_guide =
    Str ''\<newline># Art Style Guide: Cosmic Rift\<newline>\<newline>## Vision\<newline>The art should feel vast, ethereal, and powerful. Think nebulae, galaxies, and strange cosmic phenomena. The mood is one of awe and conflict.\<newline>\<newline>## Color Palette\<newline>-   Deep Purples (#483D8B)\<newline>-   Starlight Gold (#FFD700)\<newline>-   Nebula Pink (#EE82EE)\<newline>-   Cosmic Black (#000000)\<newline>''"

definition dummy_card_artwork :: jsval where
  "dummy_card_artwork =
    Arr
     [Obj
       [(''card_name'', Str ''Stardust''),
        (''artwork_description'', Str ''A gentle swirl of shimmering, golden dust against a dark, starry background.'')],
      Obj
       [(''card_name'', Str ''Rift Bolt''),
        (''artwork_description'', Str ''A jagged tear in space, with bright purple energy crackling from the edges.'')],
      Obj
       [(''card_name'', Str ''Nebula Worm''),
        (''artwork_description'', Str ''A massive, iridescent worm-like creature with a gaping maw, coiling through a pink and purple nebula.'')]]"

definition dummy_balance_analysis :: jsval where
  "dummy_balance_analysis =
    Obj
     [(''balance_analysis'', Str ''The initial balance seems reasonable for a fast-paced game. The cost-to-effect ratio of the starter cards is a good baseline. The Nebula Worm might be slightly too powerful for its cost, offering both damage and a secondary effect.''),
      (''suggested_card_changes'', Arr
       [Obj
         [(''card_name'', Str ''Nebula Worm''),
          (''suggested_change'', Str ''Increase cost from 3 to 4.''),
          (''reasoning'', Str ''This brings its power level more in line with other cards that might be available in the early game.'')]])]"

definition dummy_qa_report :: jsval where
  "dummy_qa_report =
    Obj
     [(''qa_summary'', Str ''Overall, the generated content is coherent and consistent. The rulebook clearly explains the core concepts, and the art style guide provides a strong vision. The balance analysis correctly identifies a potential outlier.''),
      (''issues_found'', Arr [])]"

definition dummyGameState :: jsval where
  "dummyGameState =
    Obj
     [(''game_design'', dummy_game_design),
      (''rulebook'', dummy_rulebook),
      (''art_style_guide'', dummy_art_style_guide),
      (''card_artwork'', dummy_card_artwork),
      (''balance_analysis'', dummy_balance_analysis),
      (''qa_report'', dummy_qa_report)]"

section \<open>The result viewer (\<^verbatim>\<open>components/GeneratedGame.tsx\<close>)\<close>

text \<open>
  Each child of the accordion is one function, in the order of the source. A guard
  \<^verbatim>\<open>a && b && <X/>\<close> evaluates to the first falsy operand, which then sits in child
  position, or to the element. \<open>None\<close> is a TypeError thrown while the component
  function runs.
\<close>

definition game_design_item :: "jsval \<Rightarrow> node option" where
  "game_design_item game_design =
     (if \<not> truthy game_design then Some (Text game_design)
      else do {
        game_name \<leftarrow> get_prop game_design ''game_name'';
        concept \<leftarrow> get_prop game_design ''concept'';
        core_mechanics \<leftarrow> get_prop game_design ''core_mechanics'';
        mechanics \<leftarrow> js_map core_mechanics
          (\<lambda>mechanic. Some (Element ''li'' [(''key'', mechanic)] [Text mechanic]));
        win_condition \<leftarrow> get_prop game_design ''win_condition'';
        game_flow \<leftarrow> get_prop game_design ''game_flow'';
        Some (Element ''AccordionItem'' [(''value'', Str ''game-design'')]
          [Element ''AccordionTrigger'' [className ''text-2xl font-bold''] [Text game_name],
           Element ''AccordionContent'' []
             [Element ''Card'' []
                [Element ''CardHeader'' []
                   [Element ''CardTitle'' [] [Text (Str ''Game Concept'')]],
                 Element ''CardContent'' []
                   [Markdown concept,
                    Element ''h3'' [className ''font-bold mt-4''] [Text (Str ''Core Mechanics:'')],
                    Element ''ul'' [className ''list-disc pl-5''] [mechanics],
                    Element ''h3'' [className ''font-bold mt-4''] [Text (Str ''Win Condition:'')],
                    Markdown win_condition,
                    Element ''h3'' [className ''font-bold mt-4''] [Text (Str ''Game Flow:'')],
                    Markdown game_flow]]]])
      })"

definition rulebook_item :: "jsval \<Rightarrow> node option" where
  "rulebook_item rulebook =
     (if \<not> truthy rulebook then Some (Text rulebook)
      else do {
        body \<leftarrow> get_prop rulebook ''rulebook'';
        Some (Element ''AccordionItem'' [(''value'', Str ''rulebook'')]
          [Element ''AccordionTrigger'' [className ''text-xl font-bold''] [Text (Str ''Rulebook'')],
           Element ''AccordionContent'' []
             [Element ''Card'' []
                [Element ''CardContent'' [className ''pt-6''] [Markdown body]]]])
      })"

definition art_style_guide_item :: "jsval \<Rightarrow> node option" where
  "art_style_guide_item art_style_guide =
     (if \<not> truthy art_style_guide then Some (Text art_style_guide)
      else do {
        body \<leftarrow> get_prop art_style_guide ''art_style_guide'';
        Some (Element ''AccordionItem'' [(''value'', Str ''art-style-guide'')]
          [Element ''AccordionTrigger'' [className ''text-xl font-bold'']
             [Text (Str ''Art Style Guide'')],
           Element ''AccordionContent'' []
             [Element ''Card'' []
                [Element ''CardContent'' [className ''pt-6''] [Markdown body]]]])
      })"

definition starter_card :: "jsval \<Rightarrow> node option" where
  "starter_card c =
     do {
       name \<leftarrow> get_prop c ''name'';
       type \<leftarrow> get_prop c ''type'';
       cost \<leftarrow> get_prop c ''cost'';
       text \<leftarrow> get_prop c ''text'';
       flavor_text \<leftarrow> get_prop c ''flavor_text'';
       Some (Element ''Card'' [(''key'', name)]
         [Element ''CardHeader'' []
            [Element ''CardTitle'' [] [Text name],
             Element ''p'' [className ''text-sm text-muted-foreground'']
               [Text type, Text (Str '' - Cost: ''), Text cost]],
          Element ''CardContent'' []
            [Element ''p'' [] [Text text],
             (if \<not> truthy flavor_text then Text flavor_text
              else Element ''p'' [className ''text-sm italic text-muted-foreground mt-2'']
                     [Text flavor_text])]])
     }"

definition starter_cards_item :: "(string \<Rightarrow> int option) \<Rightarrow> jsval \<Rightarrow> node option" where
  "starter_cards_item str2num game_design =
     (if \<not> truthy game_design then Some (Text game_design)
      else do {
        starter_cards \<leftarrow> get_prop game_design ''starter_cards'';
        if \<not> truthy starter_cards then Some (Text starter_cards)
        else do {
          len \<leftarrow> get_prop starter_cards ''length'';
          if \<not> gt_zero str2num len then Some (Text (Bool False))
          else do {
            cards \<leftarrow> js_map starter_cards starter_card;
            Some (Element ''AccordionItem'' [(''value'', Str ''starter-cards'')]
              [Element ''AccordionTrigger'' [className ''text-xl font-bold'']
                 [Text (Str ''Starter Cards'')],
               Element ''AccordionContent'' []
                 [Element ''div'' [className ''grid grid-cols-1 md:grid-cols-2 gap-4'']
                    [cards]]])
          }
        }
      })"

definition artwork_entry :: "jsval \<Rightarrow> string \<Rightarrow> node option" where
  "artwork_entry artwork cardName =
     do {
       entry \<leftarrow> get_prop artwork cardName;
       artwork_description \<leftarrow> get_prop entry ''artwork_description'';
       title_font \<leftarrow> get_prop entry ''title_font'';
       body_font \<leftarrow> get_prop entry ''body_font'';
       iconography \<leftarrow> get_prop entry ''iconography'';
       icons \<leftarrow> js_join iconography '', '';
       Some (Element ''li'' [(''key'', Str cardName), className ''mb-2'']
         [Element ''strong'' [] [Text (Str cardName), Text (Str '':'')],
          Markdown artwork_description,
          Element ''p'' [className ''text-sm text-muted-foreground'']
            [Text (Str ''Title Font: ''), Text title_font],
          Element ''p'' [className ''text-sm text-muted-foreground'']
            [Text (Str ''Body Font: ''), Text body_font],
          Element ''p'' [className ''text-sm text-muted-foreground'']
            [Text (Str ''Iconography: ''), Text icons]])
     }"

definition card_artwork_item :: "jsval \<Rightarrow> node option" where
  "card_artwork_item card_artwork =
     (if \<not> truthy card_artwork then Some (Text card_artwork)
      else do {
        artwork \<leftarrow> get_prop card_artwork ''artwork'';
        if \<not> truthy artwork then Some (Text artwork)
        else do {
          keys \<leftarrow> object_keys artwork;
          if \<not> 0 < length keys then Some (Text (Bool False))
          else do {
            entries \<leftarrow> those (map (artwork_entry artwork) keys);
            Some (Element ''AccordionItem'' [(''value'', Str ''card-artwork'')]
              [Element ''AccordionTrigger'' [className ''text-xl font-bold'']
                 [Text (Str ''Card Artwork Descriptions'')],
               Element ''AccordionContent'' []
                 [Element ''Card'' []
                    [Element ''CardContent'' [className ''pt-6'']
                       [Element ''ul'' [className ''list-disc pl-5''] [Nodes entries]]]]])
          }
        }
      })"

definition suggested_change_entry :: "jsval \<Rightarrow> node option" where
  "suggested_change_entry change =
     do {
       card_name \<leftarrow> get_prop change ''card_name'';
       suggested_change \<leftarrow> get_prop change ''suggested_change'';
       reasoning \<leftarrow> get_prop change ''reasoning'';
       Some (Element ''li'' [(''key'', card_name), className ''mb-2'']
         [Element ''strong'' [] [Text card_name, Text (Str '':'')],
          Text (Str '' ''),
          Text suggested_change,
          Text (Str '' - ''),
          Element ''em'' [className ''text-muted-foreground''] [Text reasoning]])
     }"

definition balance_analysis_item :: "jsval \<Rightarrow> node option" where
  "balance_analysis_item balance_analysis =
     (if \<not> truthy balance_analysis then Some (Text balance_analysis)
      else do {
        analysis \<leftarrow> get_prop balance_analysis ''balance_analysis'';
        suggested_card_changes \<leftarrow> get_prop balance_analysis ''suggested_card_changes'';
        changes \<leftarrow> js_map suggested_card_changes suggested_change_entry;
        Some (Element ''AccordionItem'' [(''value'', Str ''balance-analysis'')]
          [Element ''AccordionTrigger'' [className ''text-xl font-bold'']
             [Text (Str ''Balance Analysis'')],
           Element ''AccordionContent'' []
             [Element ''Card'' []
                [Element ''CardContent'' [className ''pt-6'']
                   [Markdown analysis,
                    Element ''h3'' [className ''font-bold mt-4'']
                      [Text (Str ''Suggested Changes:'')],
                    Element ''ul'' [className ''list-disc pl-5''] [changes]]]]])
      })"

definition issue_entry :: "jsval \<Rightarrow> node option" where
  "issue_entry issue =
     do {
       title \<leftarrow> get_prop issue ''issue'';
       location \<leftarrow> get_prop issue ''location'';
       suggestion \<leftarrow> get_prop issue ''suggestion'';
       Some (Element ''li'' [(''key'', title), className ''mb-2'']
         [Element ''strong'' [] [Text title, Text (Str '':'')],
          Text (Str '' (''),
          Text location,
          Text (Str '') - ''),
          Element ''span'' [className ''text-muted-foreground''] [Text suggestion]])
     }"

definition issues_found_block :: "(string \<Rightarrow> int option) \<Rightarrow> jsval \<Rightarrow> node option" where
  "issues_found_block str2num qa_report =
     do {
       issues_found \<leftarrow> get_prop qa_report ''issues_found'';
       if \<not> truthy issues_found then Some (Text issues_found)
       else do {
         len \<leftarrow> get_prop issues_found ''length'';
         if \<not> gt_zero str2num len then Some (Text (Bool False))
         else do {
           issues \<leftarrow> js_map issues_found issue_entry;
           Some (Fragment
             [Element ''h3'' [className ''font-bold mt-4''] [Text (Str ''Issues Found:'')],
              Element ''ul'' [className ''list-disc pl-5''] [issues]])
         }
       }
     }"

definition qa_report_item :: "(string \<Rightarrow> int option) \<Rightarrow> jsval \<Rightarrow> node option" where
  "qa_report_item str2num qa_report =
     (if \<not> truthy qa_report then Some (Text qa_report)
      else do {
        qa_summary \<leftarrow> get_prop qa_report ''qa_summary'';
        issues \<leftarrow> issues_found_block str2num qa_report;
        Some (Element ''AccordionItem'' [(''value'', Str ''qa-report'')]
          [Element ''AccordionTrigger'' [className ''text-xl font-bold''] [Text (Str ''QA Report'')],
           Element ''AccordionContent'' []
             [Element ''Card'' []
                [Element ''CardContent'' [className ''pt-6''] [Markdown qa_summary, issues]]]])
      })"

definition GeneratedGame :: "(string \<Rightarrow> int option) \<Rightarrow> jsval \<Rightarrow> node option" where
  "GeneratedGame str2num gameState =
     (if \<not> truthy gameState then Some (Text Null)
      else do {
        game_design \<leftarrow> get_prop gameState ''game_design'';
        rulebook \<leftarrow> get_prop gameState ''rulebook'';
        art_style_guide \<leftarrow> get_prop gameState ''art_style_guide'';
        card_artwork \<leftarrow> get_prop gameState ''card_artwork'';
        balance_analysis \<leftarrow> get_prop gameState ''balance_analysis'';
        qa_report \<leftarrow> get_prop gameState ''qa_report'';
        i1 \<leftarrow> game_design_item game_design;
        i2 \<leftarrow> rulebook_item rulebook;
        i3 \<leftarrow> art_style_guide_item art_style_guide;
        i4 \<leftarrow> starter_cards_item str2num game_design;
        i5 \<leftarrow> card_artwork_item card_artwork;
        i6 \<leftarrow> balance_analysis_item balance_analysis;
        i7 \<leftarrow> qa_report_item str2num qa_report;
        Some (Element ''div'' [className ''w-full max-w-3xl mx-auto mt-8'']
          [Element ''Accordion''
             [(''type'', Str ''single''), (''collapsible'', Bool True),
              (''defaultValue'', Str ''game-design''), className ''w-full'']
             [i1, i2, i3, i4, i5, i6, i7]])
      })"

text \<open>
  The \<^verbatim>\<open>value\<close> attributes of the accordion items a rendered tree holds, in order: this
  is the list of sections the user can open.
\<close>

fun item_value :: "node \<Rightarrow> string list" where
  "item_value (Element tag attrs kids) =
     (if tag = ''AccordionItem'' then
        (case map_of attrs ''value'' of Some (Str v) \<Rightarrow> [v] | _ \<Rightarrow> [])
      else [])"
| "item_value n = []"

fun accordion_items :: "node \<Rightarrow> string list" where
  "accordion_items (Element tag attrs [Element tag' attrs' kids]) =
     (if tag = ''div'' \<and> tag' = ''Accordion'' then concat (map item_value kids) else [])"
| "accordion_items n = []"

text \<open>The guard of the Card Artwork section, as a predicate of the game state.\<close>

definition card_artwork_guard :: "jsval \<Rightarrow> bool" where
  "card_artwork_guard gameState =
     (case get_prop gameState ''card_artwork'' of
        None \<Rightarrow> False
      | Some card_artwork \<Rightarrow>
          truthy card_artwork \<and>
          (case get_prop card_artwork ''artwork'' of
             None \<Rightarrow> False
           | Some artwork \<Rightarrow>
               truthy artwork \<and>
               (case object_keys artwork of None \<Rightarrow> False | Some keys \<Rightarrow> 0 < length keys)))"

text \<open>
  What React does with the returned tree is outside the component, but it decides
  whether the page shows it: a plain object in child position makes React throw
  (``Objects are not valid as a React child''), an array of valid children is accepted,
  and \<^verbatim>\<open>ReactMarkdown\<close> expects a string, treating a missing child as the empty
  document. \<open>renderable\<close> holds of the trees React accepts on these grounds.
\<close>

fun valid_child :: "jsval \<Rightarrow> bool" where
  "valid_child (Obj kvs) = False"
| "valid_child (Arr xs) = list_all valid_child xs"
| "valid_child v = True"

fun renderable :: "node \<Rightarrow> bool" where
  "renderable (Element tag attrs kids) = list_all renderable kids"
| "renderable (Text v) = valid_child v"
| "renderable (Markdown v) =
     (case v of Str s \<Rightarrow> True | Undefined \<Rightarrow> True | Null \<Rightarrow> True | _ \<Rightarrow> False)"
| "renderable (Nodes kids) = list_all renderable kids"
| "renderable (Fragment kids) = list_all renderable kids"

text \<open>
  A game state of the shape the Card Artwork section reads: \<^verbatim>\<open>card_artwork.artwork\<close> maps
  a card name to its description, fonts and iconography.
\<close>

definition artwork_sample :: jsval where
  "artwork_sample =
     Obj [(''card_artwork'',
       Obj [(''artwork'',
         Obj [(''Stardust'',
           Obj [(''artwork_description'', Str ''A swirl of golden dust.''),
                (''title_font'', Str ''Cinzel''),
                (''body_font'', Str ''Lato''),
                (''iconography'', Arr [Str ''star'', Str ''energy''])])])])]"

section \<open>The shapes of two stage outputs\<close>

text \<open>
  The fields the viewer reads from \<^verbatim>\<open>game_design\<close> and from \<^verbatim>\<open>card_artwork\<close>, as
  predicates on a value: a field is present when reading it gives something other than
  \<^verbatim>\<open>undefined\<close>.
\<close>

definition has_field :: "jsval \<Rightarrow> string \<Rightarrow> bool" where
  "has_field v p = (case get_prop v p of None \<Rightarrow> False | Some x \<Rightarrow> x \<noteq> Undefined)"

definition has_list :: "jsval \<Rightarrow> string \<Rightarrow> bool" where
  "has_list v p = (case get_prop v p of Some (Arr xs) \<Rightarrow> True | _ \<Rightarrow> False)"

definition card_record :: "jsval \<Rightarrow> bool" where
  "card_record c =
     (has_field c ''name'' \<and> has_field c ''type'' \<and> has_field c ''cost'' \<and> has_field c ''text'')"

definition game_design_shape :: "jsval \<Rightarrow> bool" where
  "game_design_shape gd =
     (has_field gd ''game_name'' \<and> has_field gd ''concept'' \<and>
      has_list gd ''core_mechanics'' \<and>
      has_field gd ''win_condition'' \<and> has_field gd ''game_flow'' \<and>
      (case get_prop gd ''starter_cards'' of
         Some (Arr cards) \<Rightarrow> list_all card_record cards
       | _ \<Rightarrow> False))"

definition artwork_record :: "jsval \<Rightarrow> bool" where
  "artwork_record r =
     (has_field r ''artwork_description'' \<and> has_field r ''title_font'' \<and>
      has_field r ''body_font'' \<and> has_list r ''iconography'')"

definition artwork_mapping :: "jsval \<Rightarrow> bool" where
  "artwork_mapping m =
     (case m of Obj entries \<Rightarrow> list_all (\<lambda>(cardName, r). artwork_record r) entries
      | _ \<Rightarrow> False)"

text \<open>
  \<^verbatim>\<open>card_artwork\<close> carries the mapping either directly or, as the viewer reads it, under
  its \<^verbatim>\<open>artwork\<close> field.
\<close>

definition card_artwork_shape :: "jsval \<Rightarrow> bool" where
  "card_artwork_shape ca =
     (artwork_mapping ca \<or>
      (case get_prop ca ''artwork'' of Some m \<Rightarrow> artwork_mapping m | None \<Rightarrow> False))"

section \<open>The application (\<^verbatim>\<open>App.tsx\<close>)\<close>

text \<open>
  The component state, the timers it has registered and the requests it has in flight
  are one record. A handler runs to its first \<^verbatim>\<open>await\<close>; the rest of it runs when the
  awaited request settles, which is a later event, so that timer callbacks and
  responses interleave as they do in the browser.
\<close>

definition USE_DUMMY_DATA :: bool where
  "USE_DUMMY_DATA = True"

record game_form =
  gameTheme :: string
  gameType :: string
  playerCount :: "int \<times> int"
  playTime :: string
  complexity :: string
  playStyle :: string
  artStyle :: string
  additionalNotes :: string

text \<open>
  The two requests: the POST to \<^verbatim>\<open>/generate-game/\<close>, whose body is the form, and the
  GET of \<^verbatim>\<open>/game-status/${jobId}\<close>.
\<close>

datatype request = GenerateGame game_form | GameStatus jsval

text \<open>The closures handed to \<^verbatim>\<open>setTimeout\<close> and \<^verbatim>\<open>setInterval\<close>, with their delay in ms.\<close>

datatype callback = ShowDummy | PollTick jsval

datatype timer = Timeout callback nat | Interval callback nat

text \<open>
  What remains to run when a request settles: the rest of \<^verbatim>\<open>handleSubmit\<close>, or the rest
  of the polling callback, which has captured the id of its own interval.
\<close>

datatype continuation = AfterGenerate | AfterStatus nat

text \<open>
  \<^verbatim>\<open>fetch\<close> followed by \<^verbatim>\<open>response.json()\<close>: either one of the two throws, or the parsed
  body is there.
\<close>

datatype fetch_result = Rejected | Resolved jsval

datatype console_entry =
    GenerationFailed jsval
  | ErrorPolling
  | ErrorStarting

record app_state =
  form :: game_form
  loading :: bool
  generatedGame :: jsval
  timers :: "(nat \<times> timer) list"
  next_timer :: nat
  pending :: "(nat \<times> continuation) list"
  next_request :: nat
  requests :: "request list"
  console :: "console_entry list"

definition initial_form :: game_form where
  "initial_form =
     \<lparr>gameTheme = '''', gameType = '''', playerCount = (2, 4), playTime = '''',
      complexity = '''', playStyle = '''', artStyle = '''', additionalNotes = ''''\<rparr>"

definition initial_state :: app_state where
  "initial_state =
     \<lparr>form = initial_form, loading = False, generatedGame = Null,
      timers = [], next_timer = 0, pending = [], next_request = 0,
      requests = [], console = []\<rparr>"

definition setTimeout :: "callback \<Rightarrow> nat \<Rightarrow> app_state \<Rightarrow> app_state" where
  "setTimeout cb delay s =
     s\<lparr>timers := timers s @ [(next_timer s, Timeout cb delay)],
       next_timer := Suc (next_timer s)\<rparr>"

definition setInterval :: "callback \<Rightarrow> nat \<Rightarrow> app_state \<Rightarrow> app_state" where
  "setInterval cb delay s =
     s\<lparr>timers := timers s @ [(next_timer s, Interval cb delay)],
       next_timer := Suc (next_timer s)\<rparr>"

definition clearInterval :: "nat \<Rightarrow> app_state \<Rightarrow> app_state" where
  "clearInterval interval s = s\<lparr>timers := filter (\<lambda>(i, t). i \<noteq> interval) (timers s)\<rparr>"

definition fetch :: "request \<Rightarrow> continuation \<Rightarrow> app_state \<Rightarrow> app_state" where
  "fetch req k s =
     s\<lparr>requests := requests s @ [req],
       pending := pending s @ [(next_request s, k)],
       next_request := Suc (next_request s)\<rparr>"

text \<open>\<^verbatim>\<open>pollJobStatus\<close> only registers the interval; its callback is the two functions below.\<close>

definition pollJobStatus :: "jsval \<Rightarrow> app_state \<Rightarrow> app_state" where
  "pollJobStatus jobId s = setInterval (PollTick jobId) 5000 s"

text \<open>The \<^verbatim>\<open>try\<close> block of the polling callback from the point where \<open>data\<close> is there.\<close>

definition poll_try :: "nat \<Rightarrow> jsval \<Rightarrow> app_state \<Rightarrow> app_state option" where
  "poll_try interval data s =
     do {
       status \<leftarrow> get_prop data ''status'';
       if status = Str ''complete'' then do {
         result \<leftarrow> get_prop data ''result'';
         Some (clearInterval interval (s\<lparr>generatedGame := result, loading := False\<rparr>))
       }
       else if status = Str ''failed'' then do {
         result \<leftarrow> get_prop data ''result'';
         Some (clearInterval interval
                 (s\<lparr>console := console s @ [GenerationFailed result], loading := False\<rparr>))
       }
       else Some s
     }"

definition poll_catch :: "nat \<Rightarrow> app_state \<Rightarrow> app_state" where
  "poll_catch interval s =
     clearInterval interval (s\<lparr>console := console s @ [ErrorPolling], loading := False\<rparr>)"

definition poll_settle :: "nat \<Rightarrow> fetch_result \<Rightarrow> app_state \<Rightarrow> app_state" where
  "poll_settle interval r s =
     (case r of
        Rejected \<Rightarrow> poll_catch interval s
      | Resolved data \<Rightarrow>
          (case poll_try interval data s of
             None \<Rightarrow> poll_catch interval s
           | Some s' \<Rightarrow> s'))"

definition handleSubmit :: "app_state \<Rightarrow> app_state" where
  "handleSubmit s =
     (let s1 = s\<lparr>loading := True, generatedGame := Null\<rparr> in
      if USE_DUMMY_DATA then setTimeout ShowDummy 1000 s1
      else fetch (GenerateGame (form s1)) AfterGenerate s1)"

text \<open>The rest of \<^verbatim>\<open>handleSubmit\<close>, once the POST has settled.\<close>

definition submit_settle :: "fetch_result \<Rightarrow> app_state \<Rightarrow> app_state" where
  "submit_settle r s =
     (case r of
        Rejected \<Rightarrow> s\<lparr>console := console s @ [ErrorStarting], loading := False\<rparr>
      | Resolved data \<Rightarrow>
          (case get_prop data ''job_id'' of
             None \<Rightarrow> s\<lparr>console := console s @ [ErrorStarting], loading := False\<rparr>
           | Some job_id \<Rightarrow>
               if truthy job_id then pollJobStatus job_id s else s\<lparr>loading := False\<rparr>))"

fun run_callback :: "callback \<Rightarrow> nat \<Rightarrow> app_state \<Rightarrow> app_state" where
  "run_callback ShowDummy tid s = s\<lparr>generatedGame := dummyGameState, loading := False\<rparr>"
| "run_callback (PollTick jobId) tid s = fetch (GameStatus jobId) (AfterStatus tid) s"

text \<open>A timer fires only while it is registered; a timeout is spent by firing.\<close>

definition fire :: "nat \<Rightarrow> app_state \<Rightarrow> app_state" where
  "fire tid s =
     (case map_of (timers s) tid of
        None \<Rightarrow> s
      | Some (Timeout cb delay) \<Rightarrow>
          run_callback cb tid (s\<lparr>timers := filter (\<lambda>(i, t). i \<noteq> tid) (timers s)\<rparr>)
      | Some (Interval cb delay) \<Rightarrow> run_callback cb tid s)"

definition settle :: "nat \<Rightarrow> fetch_result \<Rightarrow> app_state \<Rightarrow> app_state" where
  "settle rid r s =
     (case map_of (pending s) rid of
        None \<Rightarrow> s
      | Some k \<Rightarrow>
          (let s' = s\<lparr>pending := filter (\<lambda>(i, k). i \<noteq> rid) (pending s)\<rparr> in
           case k of
             AfterGenerate \<Rightarrow> submit_settle r s'
           | AfterStatus interval \<Rightarrow> poll_settle interval r s'))"

text \<open>
  What can happen to the page: the user edits the form, the user submits it (the submit
  button is \<^verbatim>\<open>disabled={loading}\<close>, so nothing is submitted while loading), a timer
  fires, a request settles.
\<close>

datatype event = Edit game_form | Submit | Fire nat | Settle nat fetch_result

fun step :: "event \<Rightarrow> app_state \<Rightarrow> app_state" where
  "step (Edit f) s = s\<lparr>form := f\<rparr>"
| "step Submit s = (if loading s then s else handleSubmit s)"
| "step (Fire tid) s = fire tid s"
| "step (Settle rid r) s = settle rid r s"

fun run :: "event list \<Rightarrow> app_state \<Rightarrow> app_state" where
  "run [] s = s"
| "run (e # es) s = run es (step e s)"

text \<open>
  What the page shows of the state: the loading banner and the disabled button follow
  \<open>loading\<close>, and below the form stands \<^verbatim>\<open>{generatedGame && <GeneratedGame .../>}\<close>.
\<close>

definition displayed_game :: "(string \<Rightarrow> int option) \<Rightarrow> app_state \<Rightarrow> node option" where
  "displayed_game str2num s =
     (if \<not> truthy (generatedGame s) then Some (Text (generatedGame s))
      else GeneratedGame str2num (generatedGame s))"

text \<open>Everything of the state but the form fields the user types into.\<close>

definition beyond_form :: "app_state \<Rightarrow> app_state" where
  "beyond_form s = s\<lparr>form := initial_form\<rparr>"

fun forget_input :: "event \<Rightarrow> event" where
  "forget_input (Edit f) = Edit initial_form"
| "forget_input e = e"

definition timer_ids :: "app_state \<Rightarrow> nat set" where
  "timer_ids s = fst ` set (timers s)"

text \<open>Timer ids are handed out in increasing order, so a registered id is below the next one.\<close>

definition fresh_ids :: "app_state \<Rightarrow> bool" where
  "fresh_ids s = list_all (\<lambda>(i, t). i < next_timer s) (timers s)"

text \<open>The status a poll response carries is terminal.\<close>

definition terminal_status :: "fetch_result \<Rightarrow> bool" where
  "terminal_status r =
     (case r of
        Rejected \<Rightarrow> False
      | Resolved data \<Rightarrow>
          (case get_prop data ''status'' of
             None \<Rightarrow> False
           | Some status \<Rightarrow> status = Str ''complete'' \<or> status = Str ''failed''))"

text \<open>The poll threw: the request or the parse failed, or the body has no properties to read.\<close>

definition poll_threw :: "fetch_result \<Rightarrow> bool" where
  "poll_threw r =
     (case r of
        Rejected \<Rightarrow> True
      | Resolved data \<Rightarrow> get_prop data ''status'' = None)"

text \<open>The tree the viewer returns for \<open>artwork_sample\<close>.\<close>

definition artwork_sample_tree :: node where
  "artwork_sample_tree =
     Element ''div'' [className ''w-full max-w-3xl mx-auto mt-8'']
       [Element ''Accordion''
          [(''type'', Str ''single''), (''collapsible'', Bool True),
           (''defaultValue'', Str ''game-design''), className ''w-full'']
          [Text Undefined, Text Undefined, Text Undefined, Text Undefined,
           Element ''AccordionItem'' [(''value'', Str ''card-artwork'')]
             [Element ''AccordionTrigger'' [className ''text-xl font-bold'']
                [Text (Str ''Card Artwork Descriptions'')],
              Element ''AccordionContent'' []
                [Element ''Card'' []
                   [Element ''CardContent'' [className ''pt-6'']
                      [Element ''ul'' [className ''list-disc pl-5'']
                         [Nodes
                            [Element ''li'' [(''key'', Str ''Stardust''), className ''mb-2'']
                               [Element ''strong'' [] [Text (Str ''Stardust''), Text (Str '':'')],
                                Markdown (Str ''A swirl of golden dust.''),
                                Element ''p'' [className ''text-sm text-muted-foreground'']
                                  [Text (Str ''Title Font: ''), Text (Str ''Cinzel'')],
                                Element ''p'' [className ''text-sm text-muted-foreground'']
                                  [Text (Str ''Body Font: ''), Text (Str ''Lato'')],
                                Element ''p'' [className ''text-sm text-muted-foreground'']
                                  [Text (Str ''Iconography: ''),
                                   Text (Str ''star, energy'')]]]]]]]],
           Text Undefined, Text Undefined]]"

text \<open>
  The states of the shipped configuration: nothing requested, nothing in flight, no timer
  but the one-second timeout of the sample game, and nothing shown but that game.
\<close>

definition dummy_only :: "app_state \<Rightarrow> bool" where
  "dummy_only s =
     (requests s = [] \<and> pending s = [] \<and>
      list_all (\<lambda>(i, t). t = Timeout ShowDummy 1000) (timers s) \<and>
      (generatedGame s = Null \<or> generatedGame s = dummyGameState))"

text \<open>The timer \<open>i\<close> was handed out once and is no longer registered.\<close>

definition gone :: "nat \<Rightarrow> app_state \<Rightarrow> bool" where
  "gone i s = (fresh_ids s \<and> i < next_timer s \<and> i \<notin> timer_ids s)"

text \<open>Two fillings of the form, and the state of a page that polls for a job.\<close>

definition space_form :: game_form where
  "space_form =
     \<lparr>gameTheme = ''Space Exploration'', gameType = ''deck-building'', playerCount = (2, 4),
      playTime = ''30-60'', complexity = ''medium'', playStyle = ''competitive'',
      artStyle = ''Pixel Art'', additionalNotes = ''''\<rparr>"

definition fantasy_form :: game_form where
  "fantasy_form =
     \<lparr>gameTheme = ''Medieval Fantasy'', gameType = ''drafting'', playerCount = (1, 6),
      playTime = ''90+'', complexity = ''heavy'', playStyle = ''co-operative'',
      artStyle = ''Minimalist'', additionalNotes = ''No dragons''\<rparr>"

definition polling_state :: app_state where
  "polling_state = pollJobStatus (Str ''job-1'') (initial_state\<lparr>loading := True\<rparr>)"

text \<open>Two bodies the status endpoint may answer with.\<close>

definition job_complete :: jsval where
  "job_complete = Obj [(''status'', Str ''complete''), (''result'', dummyGameState)]"

definition job_running :: jsval where
  "job_running = Obj [(''status'', Str ''running'')]"

section \<open>The orchestration engine, from the specification\<close>

text \<open>
  The repository's sources hold the client only; the engine the specification
  describes (job manager, agent adapter, orchestrator, balance feedback loop,
  regeneration controller) is not among them. Every definition of this section is
  written from the specification's sections 3 to 7. Stage outputs are the JSON values
  the client receives, so that the shapes above apply to them.
\<close>

text \<open>Modelled from the spec: the six stages of the DAG (section 4.3), which are missing
  from the sources, named by the keys of the serialized AggregateState (section 6).\<close>

datatype stage = GameDesign | Rulebook | ArtStyleGuide | CardArtwork | BalanceAnalysis | QaReport

text \<open>Modelled from the spec: the key of each stage in the serialized AggregateState
  (section 6); the serializer is missing from the sources.\<close>

fun stage_key :: "stage \<Rightarrow> string" where
  "stage_key GameDesign = ''game_design''"
| "stage_key Rulebook = ''rulebook''"
| "stage_key ArtStyleGuide = ''art_style_guide''"
| "stage_key CardArtwork = ''card_artwork''"
| "stage_key BalanceAnalysis = ''balance_analysis''"
| "stage_key QaReport = ''qa_report''"

text \<open>Modelled from the spec: the required stages, in the order section 6 lists their
  keys; the stage definitions are missing from the sources.\<close>

definition required_stages :: "stage list" where
  "required_stages = [GameDesign, Rulebook, ArtStyleGuide, CardArtwork, BalanceAnalysis, QaReport]"

text \<open>Modelled from the spec: the declared upstream stages of each stage (section 4.3:
  design first; balance review, rules writing and art direction need the design; asset
  generation follows art direction; quality assurance needs every other stage). The
  stage definitions are missing from the sources.\<close>

fun depends_on :: "stage \<Rightarrow> stage list" where
  "depends_on GameDesign = []"
| "depends_on BalanceAnalysis = [GameDesign]"
| "depends_on Rulebook = [GameDesign]"
| "depends_on ArtStyleGuide = [GameDesign]"
| "depends_on CardArtwork = [ArtStyleGuide]"
| "depends_on QaReport = [GameDesign, Rulebook, ArtStyleGuide, CardArtwork, BalanceAnalysis]"

text \<open>Modelled from the spec: the AggregateState (section 3), a mapping from stage to
  its validated output; the engine's state is missing from the sources.\<close>

type_synonym aggregate = "stage \<Rightarrow> jsval option"

text \<open>Modelled from the spec: the job lifecycle states of section 4.2; the job manager is
  missing from the sources.\<close>

datatype job_status = Queued | Running | Complete | Failed

text \<open>Modelled from the spec: the target of a regeneration, a whole stage or a single
  card name (section 4.5); the regeneration controller is missing from the sources.\<close>

datatype target = WholeStage stage | SingleCard string

text \<open>Modelled from the spec: the Job of section 3 (status, specification, aggregate,
  error record naming the failed stage and why, version counter). While a regeneration
  is the job's active execution (section 4.2), the job also holds its target. The job
  manager is missing from the sources.\<close>

record job =
  status :: job_status
  spec :: game_form
  aggregate :: aggregate
  error :: "(stage \<times> string) option"
  version :: nat
  regeneration :: "target option"

text \<open>Modelled from the spec: what one call of the language model yields (section 4.1):
  a transient failure or a raw output; the agents are missing from the sources.\<close>

datatype reply = TransientFailure | Output jsval

text \<open>Modelled from the spec: the error taxonomy of section 7. \<open>StageFailed\<close> carries the
  stage and the replies of the exhausted attempts; \<open>MergeRejected\<close> is the defensive
  check of section 4.3, \<open>UnknownTarget\<close> a card no stage references. The engine is
  missing from the sources.\<close>

datatype failure =
    ValidationError stage
  | StageFailed stage "reply list"
  | MergeRejected stage
  | JobBusy
  | JobNotReady
  | UnknownJob
  | UnknownTarget

text \<open>Modelled from the spec: what the engine is configured with: the declared output
  schema of each stage, the attempt bound of the adapter (default 3), the round bound of
  the feedback loop (default 2), and the model-backed agent itself, which answers a
  stage, an input and the replies it already gave in this invocation. All of them are
  missing from the sources and are parameters here.\<close>

record config =
  schema :: "stage \<Rightarrow> jsval \<Rightarrow> bool"
  max_attempts :: nat
  max_rounds :: nat
  agent :: "stage \<Rightarrow> jsval \<Rightarrow> reply list \<Rightarrow> reply"

text \<open>Modelled from the spec: the defaults named in sections 4.1 and 4.4 (3 attempts,
  2 rounds); the configuration is missing from the sources.\<close>

definition default_config ::
  "(stage \<Rightarrow> jsval \<Rightarrow> bool) \<Rightarrow> (stage \<Rightarrow> jsval \<Rightarrow> reply list \<Rightarrow> reply) \<Rightarrow> config" where
  "default_config sch ag = \<lparr>schema = sch, max_attempts = 3, max_rounds = 2, agent = ag\<rparr>"

text \<open>Modelled from the spec: sequencing of fallible steps (errors propagate, section
  7); the engine is missing from the sources.\<close>

definition and_then :: "failure + 'a \<Rightarrow> ('a \<Rightarrow> failure + 'b) \<Rightarrow> failure + 'b" where
  "and_then r f = (case r of Inl e \<Rightarrow> Inl e | Inr x \<Rightarrow> f x)"

text \<open>Modelled from the spec: the serialized AggregateState of section 6, a mapping keyed
  by stage name; the serializer is missing from the sources.\<close>

definition serialize :: "aggregate \<Rightarrow> jsval" where
  "serialize agg =
     Obj (concat (map (\<lambda>st. case agg st of None \<Rightarrow> [] | Some v \<Rightarrow> [(stage_key st, v)])
                    required_stages))"

text \<open>Modelled from the spec: all declared dependencies of a stage are present in the
  aggregate (section 3, invariant of AggregateState); the orchestrator is missing from
  the sources.\<close>

definition deps_present :: "aggregate \<Rightarrow> stage \<Rightarrow> bool" where
  "deps_present agg st = list_all (\<lambda>d. agg d \<noteq> None) (depends_on st)"

text \<open>Modelled from the spec: the structured input of an adapter call: the current
  aggregate as context, plus what the caller adds (section 4.5); the adapter is missing
  from the sources.\<close>

definition stage_input :: "aggregate \<Rightarrow> (string \<times> jsval) list \<Rightarrow> jsval" where
  "stage_input agg extra = Obj ((''context'', serialize agg) # extra)"

text \<open>Modelled from the spec: \<^verbatim>\<open>card_artwork\<close> includes the mapping from card name to
  artwork record (section 6), under the field the client reads it from; the stage
  schemas are missing from the sources.\<close>

definition artwork_held :: "jsval \<Rightarrow> bool" where
  "artwork_held v = (case get_prop v ''artwork'' of Some m \<Rightarrow> artwork_mapping m | None \<Rightarrow> False)"

text \<open>Modelled from the spec: the part of the stage schemas that section 6 spells out:
  the fields of \<^verbatim>\<open>game_design\<close> and the mapping \<^verbatim>\<open>card_artwork\<close> includes. Of the other
  stages' schemas section 6 says nothing. The stage schemas are missing from the
  sources.\<close>

fun declared_shape :: "stage \<Rightarrow> jsval \<Rightarrow> bool" where
  "declared_shape GameDesign v = game_design_shape v"
| "declared_shape CardArtwork v = artwork_held v"
| "declared_shape st v = True"

text \<open>Modelled from the spec: a raw output conforms to its stage's declared schema
  (sections 4.1 and 9: anything that does not conform is rejected): it has the shape
  section 6 spells out and passes the configured schema. The adapter is missing from
  the sources.\<close>

definition valid_output :: "config \<Rightarrow> stage \<Rightarrow> jsval \<Rightarrow> bool" where
  "valid_output cfg st v = (declared_shape st v \<and> schema cfg st v)"

text \<open>Modelled from the spec: the bounded attempts of the Agent Adapter (section 4.1).
  A reply is accepted when it is an output that passes validation; a transient failure
  or an invalid output is retried, with the earlier replies as context; when the
  attempts are used up the stage has failed. The adapter is missing from the sources.\<close>

fun attempt ::
  "config \<Rightarrow> (jsval \<Rightarrow> bool) \<Rightarrow> stage \<Rightarrow> jsval \<Rightarrow> nat \<Rightarrow> reply list \<Rightarrow> failure + jsval" where
  "attempt cfg valid st input 0 history = Inl (StageFailed st history)"
| "attempt cfg valid st input (Suc n) history =
     (case agent cfg st input history of
        Output v \<Rightarrow>
          if valid v then Inr v
          else attempt cfg valid st input n (history @ [Output v])
      | TransientFailure \<Rightarrow> attempt cfg valid st input n (history @ [TransientFailure]))"

text \<open>Modelled from the spec: \<^verbatim>\<open>invoke\<close> of section 4.1: a ValidationError before any
  call when an upstream output is missing, otherwise the bounded attempts. The adapter
  is missing from the sources.\<close>

definition invoke ::
  "config \<Rightarrow> (jsval \<Rightarrow> bool) \<Rightarrow> stage \<Rightarrow> aggregate \<Rightarrow> (string \<times> jsval) list \<Rightarrow> failure + jsval"
  where
  "invoke cfg valid st agg extra =
     (if \<not> deps_present agg st then Inl (ValidationError st)
      else attempt cfg valid st (stage_input agg extra) (max_attempts cfg) [])"

text \<open>Modelled from the spec: the single merge entry point of section 4.3: one stage's
  result is applied, the version counter goes up, and the merge is rejected when a
  declared dependency is not present. The orchestrator is missing from the sources.\<close>

definition merge :: "stage \<Rightarrow> jsval \<Rightarrow> job \<Rightarrow> failure + job" where
  "merge st v j =
     (if \<not> deps_present (aggregate j) st then Inl (MergeRejected st)
      else Inr (j\<lparr>aggregate := (aggregate j)(st \<mapsto> v), version := Suc (version j)\<rparr>))"

text \<open>Modelled from the spec: running one stage: the adapter call on the current
  aggregate, then the merge (section 4.3); the orchestrator is missing from the sources.\<close>

definition run_stage :: "config \<Rightarrow> stage \<Rightarrow> (string \<times> jsval) list \<Rightarrow> job \<Rightarrow> failure + job" where
  "run_stage cfg st extra j =
     and_then (invoke cfg (valid_output cfg st) st (aggregate j) extra) (\<lambda>v. merge st v j)"

text \<open>Modelled from the spec: the suggested card changes a balance review lists (section
  4.4), read from the field the client shows them from; the balance stage is missing
  from the sources.\<close>

definition suggested_changes :: "jsval \<Rightarrow> jsval list" where
  "suggested_changes review =
     (case get_prop review ''suggested_card_changes'' of Some (Arr cs) \<Rightarrow> cs | _ \<Rightarrow> [])"

text \<open>Modelled from the spec: whether the loop has work to do: a design and a review are
  there and the review lists one or more suggested changes (section 4.4); the feedback
  loop is missing from the sources.\<close>

definition unresolved :: "job \<Rightarrow> bool" where
  "unresolved j =
     (case (aggregate j GameDesign, aggregate j BalanceAnalysis) of
        (Some design, Some review) \<Rightarrow> suggested_changes review \<noteq> []
      | _ \<Rightarrow> False)"

text \<open>Modelled from the spec: one round of the feedback loop (section 4.4): Game Design
  is re-invoked with the prior design (in the context) and the suggested changes, then
  Balance Review re-runs against the revision; each result replaces the stored one.
  The feedback loop is missing from the sources.\<close>

definition feedback_round :: "config \<Rightarrow> job \<Rightarrow> failure + job" where
  "feedback_round cfg j =
     (case aggregate j BalanceAnalysis of
        None \<Rightarrow> Inr j
      | Some review \<Rightarrow>
          and_then
            (run_stage cfg GameDesign
               [(''suggested_card_changes'', Arr (suggested_changes review))] j)
            (\<lambda>j1. run_stage cfg BalanceAnalysis [] j1))"

text \<open>Modelled from the spec: the Balance Feedback Loop of section 4.4, bounded by the
  number of rounds it may still run: it stops when nothing is unresolved, and when the
  bound is used up it stops with the last design and review as they are. The feedback
  loop is missing from the sources.\<close>

fun balance_loop :: "config \<Rightarrow> nat \<Rightarrow> job \<Rightarrow> failure + job" where
  "balance_loop cfg 0 j = Inr j"
| "balance_loop cfg (Suc n) j =
     (if \<not> unresolved j then Inr j
      else and_then (feedback_round cfg j) (balance_loop cfg n))"

text \<open>Modelled from the spec: how the design settles (sections 4.3 and 4.4): Game Design
  runs, Balance Review runs on it, then the feedback loop with the configured bound.
  The orchestrator is missing from the sources.\<close>

definition settle_design :: "config \<Rightarrow> job \<Rightarrow> failure + job" where
  "settle_design cfg j =
     and_then (run_stage cfg GameDesign [] j)
       (\<lambda>j1. and_then (run_stage cfg BalanceAnalysis [] j1)
          (\<lambda>j2. balance_loop cfg (max_rounds cfg) j2))"

text \<open>Modelled from the spec: the ready set of section 4.3: the stages not yet merged
  whose dependencies are all in the aggregate; the orchestrator is missing from the
  sources.\<close>

definition ready :: "aggregate \<Rightarrow> stage list" where
  "ready agg = filter (\<lambda>st. agg st = None \<and> deps_present agg st) required_stages"

text \<open>Modelled from the spec: the ready stages are dispatched together, each seeing the
  aggregate as it was at dispatch; the first failure aborts (fail-fast, section 4.2).
  The orchestrator is missing from the sources.\<close>

fun invoke_all :: "config \<Rightarrow> aggregate \<Rightarrow> stage list \<Rightarrow> failure + (stage \<times> jsval) list" where
  "invoke_all cfg agg [] = Inr []"
| "invoke_all cfg agg (st # sts) =
     and_then (invoke cfg (valid_output cfg st) st agg [])
       (\<lambda>v. and_then (invoke_all cfg agg sts) (\<lambda>vs. Inr ((st, v) # vs)))"

text \<open>Modelled from the spec: completed results are merged one at a time through the
  single merge point (section 4.3); the orchestrator is missing from the sources.\<close>

fun merge_all :: "(stage \<times> jsval) list \<Rightarrow> job \<Rightarrow> failure + job" where
  "merge_all [] j = Inr j"
| "merge_all ((st, v) # rs) j = and_then (merge st v j) (merge_all rs)"

text \<open>Modelled from the spec: the stages still to be merged; the orchestrator is missing
  from the sources.\<close>

definition unmerged :: "job \<Rightarrow> stage list" where
  "unmerged j = filter (\<lambda>st. aggregate j st = None) required_stages"

text \<open>Modelled from the spec: the executor's loop of section 4.3: dispatch the ready
  set, merge, recompute, until the QA report is merged (success) or a stage fails
  (abort). A round that merges nothing new is an abort as well. The orchestrator is
  missing from the sources.\<close>

function run_rounds :: "config \<Rightarrow> job \<Rightarrow> failure + job" where
  "run_rounds cfg j =
     (if aggregate j QaReport \<noteq> None then Inr j
      else
        (case and_then (invoke_all cfg (aggregate j) (ready (aggregate j)))
                (\<lambda>rs. merge_all rs j) of
           Inl e \<Rightarrow> Inl e
         | Inr j' \<Rightarrow>
             if length (unmerged j') < length (unmerged j) then run_rounds cfg j'
             else Inl (MergeRejected QaReport)))"
  by pat_completeness auto
termination
  by (relation "measure (\<lambda>(cfg, j). length (unmerged j))") auto

text \<open>Modelled from the spec: the stage an error record names, and why (section 4.2);
  the job manager is missing from the sources.\<close>

fun failed_stage :: "failure \<Rightarrow> stage \<times> string" where
  "failed_stage (ValidationError st) = (st, ''ValidationError'')"
| "failed_stage (StageFailed st history) = (st, ''StageFailed'')"
| "failed_stage (MergeRejected st) = (st, ''MergeRejected'')"
| "failed_stage e = (QaReport, ''rejected'')"

text \<open>Modelled from the spec: the stages whose outputs hold card entries (section 3:
  design, balance and artwork); the regeneration controller is missing from the
  sources.\<close>

definition card_stages :: "stage list" where
  "card_stages = [GameDesign, BalanceAnalysis, CardArtwork]"

text \<open>Modelled from the spec: the list a stage output keeps under a field, empty when
  the field holds no list; the stage outputs are missing from the sources.\<close>

definition list_field :: "jsval \<Rightarrow> string \<Rightarrow> jsval list" where
  "list_field v p = (case get_prop v p of Some (Arr xs) \<Rightarrow> xs | _ \<Rightarrow> [])"

text \<open>Modelled from the spec: an entry of a list of card records belongs to the card
  whose name its name field carries (section 3: cards are identified by name); the
  stage outputs are missing from the sources.\<close>

definition named :: "string \<Rightarrow> string \<Rightarrow> jsval \<Rightarrow> bool" where
  "named field cname entry = (get_prop entry field = Some (Str cname))"

text \<open>Modelled from the spec: the entries a stage output holds for a card (section 3),
  in the fields the client reads them from: the design's \<^verbatim>\<open>starter_cards\<close> by \<^verbatim>\<open>name\<close>,
  the review's \<^verbatim>\<open>suggested_card_changes\<close> by \<^verbatim>\<open>card_name\<close>, and by key the mapping
  that a validated artwork output holds under \<^verbatim>\<open>artwork\<close>. The stage outputs are missing
  from the sources.\<close>

fun card_entries :: "stage \<Rightarrow> string \<Rightarrow> jsval \<Rightarrow> jsval list" where
  "card_entries GameDesign cname v = filter (named ''name'' cname) (list_field v ''starter_cards'')"
| "card_entries BalanceAnalysis cname v =
     filter (named ''card_name'' cname) (list_field v ''suggested_card_changes'')"
| "card_entries CardArtwork cname v =
     (case get_prop v ''artwork'' of
        Some (Obj entries) \<Rightarrow> map snd (filter (\<lambda>(k, r). k = cname) entries)
      | _ \<Rightarrow> [])"
| "card_entries st cname v = []"

text \<open>Modelled from the spec: replacing the value of a field an object has; any other
  value is left as it is. The stage outputs are missing from the sources.\<close>

fun set_field :: "jsval \<Rightarrow> string \<Rightarrow> jsval \<Rightarrow> jsval" where
  "set_field (Obj kvs) p x = Obj (map (\<lambda>(k, old). if k = p then (k, x) else (k, old)) kvs)"
| "set_field v p x = v"

text \<open>Modelled from the spec: a stage output with the entries of one card replaced by a
  new entry and everything else kept (section 4.5); the regeneration controller is
  missing from the sources.\<close>

fun replace_card :: "stage \<Rightarrow> string \<Rightarrow> jsval \<Rightarrow> jsval \<Rightarrow> jsval" where
  "replace_card GameDesign cname entry v =
     (case get_prop v ''starter_cards'' of
        Some (Arr cards) \<Rightarrow>
          set_field v ''starter_cards''
            (Arr (map (\<lambda>c. if named ''name'' cname c then entry else c) cards))
      | _ \<Rightarrow> v)"
| "replace_card BalanceAnalysis cname entry v =
     (case get_prop v ''suggested_card_changes'' of
        Some (Arr changes) \<Rightarrow>
          set_field v ''suggested_card_changes''
            (Arr (map (\<lambda>c. if named ''card_name'' cname c then entry else c) changes))
      | _ \<Rightarrow> v)"
| "replace_card CardArtwork cname entry v =
     (case get_prop v ''artwork'' of
        Some (Obj entries) \<Rightarrow>
          set_field v ''artwork''
            (Obj (map (\<lambda>(k, r). if k = cname then (k, entry) else (k, r)) entries))
      | _ \<Rightarrow> v)"
| "replace_card st cname entry v = v"

text \<open>Modelled from the spec: a new entry is for the targeted card: in the two lists of
  card records it carries the card's name (section 3); the regeneration controller is
  missing from the sources.\<close>

fun entry_for :: "stage \<Rightarrow> string \<Rightarrow> jsval \<Rightarrow> bool" where
  "entry_for GameDesign cname entry = named ''name'' cname entry"
| "entry_for BalanceAnalysis cname entry = named ''card_name'' cname entry"
| "entry_for st cname entry = True"

text \<open>Modelled from the spec: regenerating a whole stage (section 4.5): the adapter is
  invoked with the full current aggregate and the target; on success exactly that
  stage's result is replaced and the version goes up. The regeneration controller is
  missing from the sources.\<close>

definition regenerate_stage :: "config \<Rightarrow> stage \<Rightarrow> job \<Rightarrow> failure + job" where
  "regenerate_stage cfg st j =
     and_then
       (invoke cfg (valid_output cfg st) st (aggregate j) [(''target'', Str (stage_key st))])
       (\<lambda>v. Inr (j\<lparr>aggregate := (aggregate j)(st \<mapsto> v), version := Suc (version j)\<rparr>))"

text \<open>Modelled from the spec: the new result of one stage when a card is regenerated
  (section 4.5): a stage that holds no entry for the card is left alone; otherwise the
  adapter, given the prior aggregate and the card, must produce an entry for that card
  with which the stage's output still meets its schema. The regeneration controller is
  missing from the sources.\<close>

definition regenerate_card_in ::
  "config \<Rightarrow> string \<Rightarrow> aggregate \<Rightarrow> stage \<Rightarrow> aggregate \<Rightarrow> failure + aggregate" where
  "regenerate_card_in cfg cname prior st acc =
     (case prior st of
        None \<Rightarrow> Inr acc
      | Some old \<Rightarrow>
          if card_entries st cname old = [] then Inr acc
          else
            and_then
              (invoke cfg
                 (\<lambda>entry. entry_for st cname entry \<and>
                    valid_output cfg st (replace_card st cname entry old))
                 st prior [(''target'', Str cname)])
              (\<lambda>entry. Inr (acc(st \<mapsto> replace_card st cname entry old))))"

text \<open>Modelled from the spec: the card's entries are produced stage by stage against
  the same prior aggregate; a failure in any stage gives up the results gathered so far
  (section 3: replaced atomically). The regeneration controller is missing from the
  sources.\<close>

fun regenerate_card_stages ::
  "config \<Rightarrow> string \<Rightarrow> aggregate \<Rightarrow> stage list \<Rightarrow> aggregate \<Rightarrow> failure + aggregate" where
  "regenerate_card_stages cfg cname prior [] acc = Inr acc"
| "regenerate_card_stages cfg cname prior (st # sts) acc =
     and_then (regenerate_card_in cfg cname prior st acc)
       (regenerate_card_stages cfg cname prior sts)"

text \<open>Modelled from the spec: some stage holds an entry for the card; the regeneration
  controller is missing from the sources.\<close>

definition referenced :: "aggregate \<Rightarrow> string \<Rightarrow> bool" where
  "referenced agg cname =
     list_ex (\<lambda>st. case agg st of None \<Rightarrow> False | Some v \<Rightarrow> card_entries st cname v \<noteq> [])
       card_stages"

text \<open>Modelled from the spec: regenerating a single card (sections 3 and 4.5): the
  card's entries across the stages that reference it are replaced together and the
  version goes up once. The regeneration controller is missing from the sources.\<close>

definition regenerate_card :: "config \<Rightarrow> string \<Rightarrow> job \<Rightarrow> failure + job" where
  "regenerate_card cfg cname j =
     (if \<not> referenced (aggregate j) cname then Inl UnknownTarget
      else
        and_then (regenerate_card_stages cfg cname (aggregate j) card_stages (aggregate j))
          (\<lambda>agg. Inr (j\<lparr>aggregate := agg, version := Suc (version j)\<rparr>)))"


text \<open>Modelled from the spec: the re-run of the Regeneration Controller for a target
  (section 4.5), on the job's current aggregate; the regeneration controller is missing
  from the sources.\<close>

definition rerun :: "config \<Rightarrow> target \<Rightarrow> job \<Rightarrow> failure + job" where
  "rerun cfg tgt j =
     (case tgt of
        WholeStage st \<Rightarrow> regenerate_stage cfg st j
      | SingleCard cname \<Rightarrow> regenerate_card cfg cname j)"

text \<open>Modelled from the spec: the end of a regeneration (sections 4.2 and 4.5): the job
  goes back from \<open>Running\<close> to \<open>Complete\<close>, with the re-merged aggregate and the new
  version when the re-run succeeded, and with what it had when the re-run failed
  (section 4.5: a failed regeneration never makes a complete job failed). The
  regeneration controller is missing from the sources.\<close>

definition finish_regeneration :: "config \<Rightarrow> target \<Rightarrow> job \<Rightarrow> job" where
  "finish_regeneration cfg tgt j =
     (case rerun cfg tgt j of
        Inl e \<Rightarrow> j\<lparr>status := Complete, regeneration := None\<rparr>
      | Inr j' \<Rightarrow> j'\<lparr>status := Complete, regeneration := None\<rparr>)"

text \<open>Modelled from the spec: the active execution of a running job, run to its end
  (sections 4.2, 4.3). A regeneration ends as above. In the initial run the design
  settles and the executor runs the rest; the job becomes \<open>Complete\<close> when the run
  succeeds and \<open>Failed\<close>, with its error record, when a stage fails. The job manager is
  missing from the sources.\<close>

definition execute :: "config \<Rightarrow> job \<Rightarrow> job" where
  "execute cfg j =
     (if status j \<noteq> Running then j
      else
        (case regeneration j of
           Some tgt \<Rightarrow> finish_regeneration cfg tgt j
         | None \<Rightarrow>
             (case and_then (settle_design cfg j) (run_rounds cfg) of
                Inl e \<Rightarrow> j\<lparr>status := Failed, error := Some (failed_stage e)\<rparr>
              | Inr j' \<Rightarrow> j'\<lparr>status := Complete\<rparr>)))"

text \<open>Modelled from the spec: the job store of the Job Manager (section 4.2): jobs by
  identifier, identifiers handed out in order. The job manager is missing from the
  sources.\<close>

record manager =
  jobs :: "nat \<Rightarrow> job option"
  next_job :: nat

text \<open>Modelled from the spec: a manager with no jobs; the job manager is missing from the
  sources.\<close>

definition empty_manager :: manager where
  "empty_manager = \<lparr>jobs = (\<lambda>jid. None), next_job = 0\<rparr>"

text \<open>Modelled from the spec: \<^verbatim>\<open>submit\<close> of section 4.2: a new job in \<open>Queued\<close>, with an
  empty aggregate and version 0; the job manager is missing from the sources.\<close>

definition submit :: "game_form \<Rightarrow> manager \<Rightarrow> manager" where
  "submit sp m =
     m\<lparr>jobs := (jobs m)(next_job m \<mapsto>
            \<lparr>status = Queued, spec = sp, aggregate = (\<lambda>st. None), error = None, version = 0,
             regeneration = None\<rparr>),
       next_job := Suc (next_job m)\<rparr>"

text \<open>Modelled from the spec: the name of a status in a status response (section 6); the
  job manager is missing from the sources.\<close>

fun status_name :: "job_status \<Rightarrow> string" where
  "status_name Queued = ''queued''"
| "status_name Running = ''running''"
| "status_name Complete = ''complete''"
| "status_name Failed = ''failed''"

text \<open>Modelled from the spec: the body of a status response (section 6): the status,
  the serialized aggregate when the job is complete, the error record when it has
  failed. The job manager is missing from the sources.\<close>

definition status_response :: "job \<Rightarrow> jsval" where
  "status_response j =
     Obj ((''status'', Str (status_name (status j))) #
          (if status j = Complete then [(''result'', serialize (aggregate j))] else []) @
          (case error j of
             Some (st, why) \<Rightarrow>
               if status j = Failed then
                 [(''error'', Obj [(''stage'', Str (stage_key st)), (''message'', Str why)])]
               else []
           | None \<Rightarrow> []))"

text \<open>Modelled from the spec: \<^verbatim>\<open>getStatus\<close> of section 4.2, a read without side effects;
  the job manager is missing from the sources.\<close>

definition getStatus :: "manager \<Rightarrow> nat \<Rightarrow> jsval option" where
  "getStatus m jid = map_option status_response (jobs m jid)"

text \<open>Modelled from the spec: the request \<^verbatim>\<open>regenerate\<close> (sections 4.2 and 4.5): rejected
  with \<open>JobBusy\<close> while an execution of the job is active, with \<open>JobNotReady\<close> when the job
  is not complete; otherwise the regeneration becomes the job's active execution: the
  job is \<open>Running\<close> again and holds the target. The job manager is missing from the
  sources.\<close>

definition regenerate :: "nat \<Rightarrow> target \<Rightarrow> manager \<Rightarrow> failure + manager" where
  "regenerate jid tgt m =
     (case jobs m jid of
        None \<Rightarrow> Inl UnknownJob
      | Some j \<Rightarrow>
          if status j = Running then Inl JobBusy
          else if status j \<noteq> Complete then Inl JobNotReady
          else
            Inr (m\<lparr>jobs :=
                    (jobs m)(jid \<mapsto> j\<lparr>status := Running, regeneration := Some tgt\<rparr>)\<rparr>))"

text \<open>Modelled from the spec: the requests and internal transitions that change the
  store (section 4.2): a submission, the orchestrator beginning a queued job, the active
  execution of a running job coming to its end, a regeneration request. Status queries
  change nothing and are not among them. The job manager is missing from the sources.\<close>

datatype command = SubmitSpec game_form | Begin nat | Execute nat | Regenerate nat target

text \<open>Modelled from the spec: the effect of one command on the store (section 4.2); a
  command that does not apply leaves the store as it is. The job manager is missing
  from the sources.\<close>

fun perform :: "config \<Rightarrow> command \<Rightarrow> manager \<Rightarrow> manager" where
  "perform cfg (SubmitSpec sp) m = submit sp m"
| "perform cfg (Begin jid) m =
     (case jobs m jid of
        None \<Rightarrow> m
      | Some j \<Rightarrow>
          if status j = Queued then m\<lparr>jobs := (jobs m)(jid \<mapsto> j\<lparr>status := Running\<rparr>)\<rparr> else m)"
| "perform cfg (Execute jid) m =
     (case jobs m jid of
        None \<Rightarrow> m
      | Some j \<Rightarrow> m\<lparr>jobs := (jobs m)(jid \<mapsto> execute cfg j)\<rparr>)"
| "perform cfg (Regenerate jid tgt) m =
     (case regenerate jid tgt m of Inl e \<Rightarrow> m | Inr m' \<Rightarrow> m')"

text \<open>Modelled from the spec: a history of commands applied to a store; the job manager
  is missing from the sources.\<close>

fun perform_all :: "config \<Rightarrow> command list \<Rightarrow> manager \<Rightarrow> manager" where
  "perform_all cfg [] m = m"
| "perform_all cfg (c # cs) m = perform_all cfg cs (perform cfg c m)"

text \<open>Modelled from the spec: every required stage has a result in the aggregate
  (section 4.2); the job manager is missing from the sources.\<close>

definition all_present :: "aggregate \<Rightarrow> bool" where
  "all_present agg = list_all (\<lambda>st. agg st \<noteq> None) required_stages"

text \<open>Modelled from the spec: every result in the aggregate meets its stage's declared
  schema (section 8); the job manager is missing from the sources.\<close>

definition all_valid :: "config \<Rightarrow> aggregate \<Rightarrow> bool" where
  "all_valid cfg agg =
     list_all (\<lambda>st. case agg st of None \<Rightarrow> True | Some v \<Rightarrow> schema cfg st v) required_stages"

text \<open>Modelled from the spec: a stage's output is present only after all of its declared
  dependencies are present (section 3); the orchestrator is missing from the sources.\<close>

definition closed :: "aggregate \<Rightarrow> bool" where
  "closed agg = list_all (\<lambda>st. agg st = None \<or> deps_present agg st) required_stages"

text \<open>Modelled from the spec: a small engine configuration to run the model on. Its
  agent answers every stage with a fixed output of the shape the client reads, its
  balance review always suggests a change, and asked for the card ``Nebula Worm'' it
  answers with a new entry for that card. The agents are missing from the sources.\<close>

definition sample_card :: "string \<Rightarrow> jsval" where
  "sample_card cost =
     Obj [(''name'', Str ''Nebula Worm''), (''type'', Str ''Creature''), (''cost'', Str cost),
          (''text'', Str ''Deal 3 damage.'')]"

text \<open>Modelled from the spec: the fixed outputs of the sample agent; the agents are
  missing from the sources.\<close>

definition sample_output :: "stage \<Rightarrow> jsval" where
  "sample_output st =
     (case st of
        GameDesign \<Rightarrow>
          Obj [(''game_name'', Str ''Cosmic Rift''), (''concept'', Str ''Deck-building duel.''),
               (''core_mechanics'', Arr [Str ''Deck Building'']),
               (''win_condition'', Str ''Reduce the core to 0.''),
               (''game_flow'', Str ''Draw, play, discard.''),
               (''starter_cards'', Arr [sample_card ''3''])]
      | Rulebook \<Rightarrow> Obj [(''rulebook'', Str ''# Rules'')]
      | ArtStyleGuide \<Rightarrow> Obj [(''art_style_guide'', Str ''# Style'')]
      | CardArtwork \<Rightarrow>
          Obj [(''artwork'',
                Obj [(''Nebula Worm'',
                      Obj [(''artwork_description'', Str ''A worm in a nebula.''),
                           (''title_font'', Str ''Cinzel''), (''body_font'', Str ''Lato''),
                           (''iconography'', Arr [Str ''star''])])])]
      | BalanceAnalysis \<Rightarrow>
          Obj [(''balance_analysis'', Str ''Slightly strong.''),
               (''suggested_card_changes'',
                Arr [Obj [(''card_name'', Str ''Nebula Worm''),
                          (''suggested_change'', Str ''Increase cost from 3 to 4.''),
                          (''reasoning'', Str ''Power level.'')]])]
      | QaReport \<Rightarrow> Obj [(''qa_summary'', Str ''Coherent.''), (''issues_found'', Arr [])])"

text \<open>Modelled from the spec: the entry the sample agent gives for the card in each
  stage; the agents are missing from the sources.\<close>

definition sample_entry :: "stage \<Rightarrow> jsval" where
  "sample_entry st =
     (case st of
        GameDesign \<Rightarrow> sample_card ''4''
      | BalanceAnalysis \<Rightarrow>
          Obj [(''card_name'', Str ''Nebula Worm''), (''suggested_change'', Str ''None.''),
               (''reasoning'', Str ''Cost already raised.'')]
      | _ \<Rightarrow>
          Obj [(''artwork_description'', Str ''A larger worm.''),
               (''title_font'', Str ''Cinzel''), (''body_font'', Str ''Lato''),
               (''iconography'', Arr [Str ''star'', Str ''worm''])])"

text \<open>Modelled from the spec: the sample agent; the agents are missing from the
  sources.\<close>

definition sample_agent :: "stage \<Rightarrow> jsval \<Rightarrow> reply list \<Rightarrow> reply" where
  "sample_agent st input history =
     (if get_prop input ''target'' = Some (Str ''Nebula Worm'') then Output (sample_entry st)
      else Output (sample_output st))"

text \<open>Modelled from the spec: an agent that works like the sample agent except that,
  asked for the artwork of that card, it always fails transiently; the agents are
  missing from the sources.\<close>

definition failing_agent :: "stage \<Rightarrow> jsval \<Rightarrow> reply list \<Rightarrow> reply" where
  "failing_agent st input history =
     (if st = CardArtwork \<and> get_prop input ''target'' = Some (Str ''Nebula Worm'')
      then TransientFailure
      else sample_agent st input history)"

text \<open>Modelled from the spec: the declared schemas of the sample configuration: the two
  shapes section 6 spells out, and no constraint on the other stages. The schemas are
  missing from the sources.\<close>

definition sample_schema :: "stage \<Rightarrow> jsval \<Rightarrow> bool" where
  "sample_schema st v =
     (case st of
        GameDesign \<Rightarrow> game_design_shape v
      | CardArtwork \<Rightarrow> card_artwork_shape v
      | _ \<Rightarrow> True)"

text \<open>Modelled from the spec: the sample configuration, with the default bounds; the
  configuration is missing from the sources.\<close>

definition sample_config :: config where
  "sample_config = default_config sample_schema sample_agent"

text \<open>Modelled from the spec: the same configuration with the failing agent; the
  configuration is missing from the sources.\<close>

definition failing_config :: config where
  "failing_config = default_config sample_schema failing_agent"

text \<open>Modelled from the spec: a complete job as the sample configuration produces it;
  the job manager is missing from the sources.\<close>

definition sample_job :: job where
  "sample_job =
     \<lparr>status = Complete, spec = space_form, aggregate = (\<lambda>st. Some (sample_output st)),
      error = None, version = 10, regeneration = None\<rparr>"

text \<open>Modelled from the spec: a store that holds the sample job under identifier 0;
  the job manager is missing from the sources.\<close>

definition sample_manager :: manager where
  "sample_manager = \<lparr>jobs = (\<lambda>jid. None)(0 \<mapsto> sample_job), next_job = 1\<rparr>"

text \<open>Modelled from the spec: every result in the aggregate has the shape section 6
  spells out for its stage; the job manager is missing from the sources.\<close>

definition all_declared :: "aggregate \<Rightarrow> bool" where
  "all_declared agg =
     list_all (\<lambda>st. case agg st of None \<Rightarrow> True | Some v \<Rightarrow> declared_shape st v)
       required_stages"

text \<open>Modelled from the spec: the invariant of AggregateState in section 3: what is
  present has been validated, and is present only with its dependencies. The
  orchestrator is missing from the sources.\<close>

definition sound :: "config \<Rightarrow> aggregate \<Rightarrow> bool" where
  "sound cfg agg = (all_valid cfg agg \<and> all_declared agg \<and> closed agg)"

text \<open>Modelled from the spec: the invariant of a job: its aggregate is sound, and a job
  that is complete or is being regenerated has every required stage (section 4.2). The
  job manager is missing from the sources.\<close>

definition job_ok :: "config \<Rightarrow> job \<Rightarrow> bool" where
  "job_ok cfg j =
     (sound cfg (aggregate j) \<and>
      (status j = Complete \<or> regeneration j \<noteq> None \<longrightarrow> all_present (aggregate j)))"

text \<open>Modelled from the spec: every stored job satisfies the job invariant; the job
  manager is missing from the sources.\<close>

definition manager_ok :: "config \<Rightarrow> manager \<Rightarrow> bool" where
  "manager_ok cfg m = (\<forall>jid j. jobs m jid = Some j \<longrightarrow> job_ok cfg j)"

text \<open>Modelled from the spec: a job that has been complete and has not failed since: it
  is complete, or it is running a regeneration (section 4.5). The job manager is
  missing from the sources.\<close>

definition settled :: "job \<Rightarrow> bool" where
  "settled j = (status j = Complete \<or> (status j = Running \<and> regeneration j \<noteq> None))"

text \<open>Modelled from the spec: \<open>k\<close> rounds of the feedback loop in a row (section 4.4);
  the feedback loop is missing from the sources.\<close>

fun feedback_rounds :: "config \<Rightarrow> nat \<Rightarrow> job \<Rightarrow> failure + job" where
  "feedback_rounds cfg 0 j = Inr j"
| "feedback_rounds cfg (Suc k) j = and_then (feedback_round cfg j) (feedback_rounds cfg k)"

section \<open>Properties of the JavaScript value model\<close>

lemma show_nat_digits: "set (show_nat n) \<subseteq> set ''0123456789''"
proof (induction n rule: show_nat.induct)
  case (1 n)
  have digit: "''0123456789'' ! k \<in> set ''0123456789''" if "k < 10" for k
    using that nth_mem [of k "''0123456789''"] by simp
  show ?case
  proof (cases "n < 10")
    case True
    then show ?thesis
      using digit [of n] by (subst show_nat.simps) simp
  next
    case False
    then show ?thesis
      using 1 digit [of "n mod 10"] by (subst show_nat.simps) simp
  qed
qed

lemma show_nat_neq:
  "c \<in> set p \<Longrightarrow> c \<notin> set ''0123456789'' \<Longrightarrow> show_nat n \<noteq> p"
  using show_nat_digits [of n] by blast

text \<open>A property name holding a character that is no digit is not an index.\<close>

lemma map_of_indices_None:
  assumes "c \<in> set p" and "c \<notin> set ''0123456789''"
  shows "map_of (zip (map show_nat [0..<n]) ys) p = None"
proof -
  have "p \<notin> set (map show_nat [0..<n])"
    using show_nat_neq [OF assms] by auto
  then have "p \<notin> fst ` set (zip (map show_nat [0..<n]) ys)"
    by (metis (no_types, lifting) image_iff prod.collapse set_zip_leftD)
  then show ?thesis
    by (simp add: map_of_eq_None_iff)
qed

lemma get_prop_Obj:
  "get_prop (Obj kvs) p = Some (case map_of kvs p of Some x \<Rightarrow> x | None \<Rightarrow> Undefined)"
  by (simp split: option.splits)

lemma get_prop_Arr_length: "get_prop (Arr xs) ''length'' = Some (Num (int (length xs)))"
proof -
  have m: "map_of (zip (map show_nat [0..<length xs]) xs) ''length'' = None"
    by (rule map_of_indices_None [of "CHR ''l''"]) simp_all
  show ?thesis
    unfolding get_prop.simps own_props.simps m by simp
qed

lemma get_prop_Arr_field:
  assumes "c \<in> set p" and "c \<notin> set ''0123456789''" and "p \<noteq> ''length''"
  shows "get_prop (Arr xs) p = Some Undefined"
proof -
  have m: "map_of (zip (map show_nat [0..<length xs]) xs) p = None"
    by (rule map_of_indices_None [OF assms(1,2)])
  show ?thesis
    unfolding get_prop.simps own_props.simps m using assms(3) by simp
qed

lemma get_prop_Str_field:
  assumes "c \<in> set p" and "c \<notin> set ''0123456789''" and "p \<noteq> ''length''"
  shows "get_prop (Str s) p = Some Undefined"
proof -
  have m: "map_of (zip (map show_nat [0..<length s]) (map (\<lambda>c. Str [c]) s)) p = None"
    by (rule map_of_indices_None [OF assms(1,2)])
  show ?thesis
    unfolding get_prop.simps own_props.simps m using assms(3) by simp
qed

lemma get_prop_Arr_artwork: "get_prop (Arr xs) ''artwork'' = Some Undefined"
  by (rule get_prop_Arr_field [of "CHR ''a''"]) simp_all

lemma falsy_get_prop:
  "\<not> truthy v \<Longrightarrow> p \<noteq> ''length'' \<Longrightarrow> get_prop v p = None \<or> get_prop v p = Some Undefined"
  by (cases v) (auto split: if_splits)

lemma get_prop_None_iff: "get_prop v p = None \<longleftrightarrow> v = Undefined \<or> v = Null"
  by (cases v) (auto split: option.splits)

section \<open>Properties of the result viewer\<close>

lemma card_artwork_item_array: "card_artwork_item (Arr xs) = Some (Text Undefined)"
  unfolding card_artwork_item_def get_prop_Arr_artwork by simp

lemma game_design_item_value:
  "game_design_item x = Some n \<Longrightarrow>
   item_value n = (if truthy x then [''game-design''] else [])"
  by (auto simp: game_design_item_def bind_eq_Some_conv split: if_splits)

lemma rulebook_item_value:
  "rulebook_item x = Some n \<Longrightarrow> item_value n = (if truthy x then [''rulebook''] else [])"
  by (auto simp: rulebook_item_def bind_eq_Some_conv split: if_splits)

lemma art_style_guide_item_value:
  "art_style_guide_item x = Some n \<Longrightarrow>
   item_value n = (if truthy x then [''art-style-guide''] else [])"
  by (auto simp: art_style_guide_item_def bind_eq_Some_conv split: if_splits)

lemma starter_cards_item_value:
  "starter_cards_item f x = Some n \<Longrightarrow> set (item_value n) \<subseteq> {''starter-cards''}"
  by (auto simp: starter_cards_item_def bind_eq_Some_conv split: if_splits)

lemma balance_analysis_item_value:
  "balance_analysis_item x = Some n \<Longrightarrow>
   item_value n = (if truthy x then [''balance-analysis''] else [])"
  by (auto simp: balance_analysis_item_def bind_eq_Some_conv split: if_splits)

lemma qa_report_item_value:
  "qa_report_item f x = Some n \<Longrightarrow> item_value n = (if truthy x then [''qa-report''] else [])"
  by (auto simp: qa_report_item_def bind_eq_Some_conv split: if_splits)

lemma card_artwork_item_value:
  "card_artwork_item ca = Some n \<Longrightarrow>
   item_value n =
     (if truthy ca \<and>
         (case get_prop ca ''artwork'' of
            None \<Rightarrow> False
          | Some artwork \<Rightarrow>
              truthy artwork \<and>
              (case object_keys artwork of None \<Rightarrow> False | Some keys \<Rightarrow> 0 < length keys))
      then [''card-artwork''] else [])"
  by (auto simp: card_artwork_item_def bind_eq_Some_conv split: if_splits)

lemma GeneratedGame_falsy: "\<not> truthy gs \<Longrightarrow> GeneratedGame f gs = Some (Text Null)"
  by (simp add: GeneratedGame_def)

lemma GeneratedGame_card_artwork:
  assumes "GeneratedGame f gs = Some t"
  shows "(''card-artwork'' \<in> set (accordion_items t)) = card_artwork_guard gs"
proof (cases "truthy gs")
  case False
  then have "t = Text Null"
    using assms by (simp add: GeneratedGame_def)
  moreover have "\<not> card_artwork_guard gs"
    using falsy_get_prop [OF False, of "''card_artwork''"]
    by (auto simp: card_artwork_guard_def)
  ultimately show ?thesis by simp
next
  case True
  then obtain gd rb asg ca ba qa i1 i2 i3 i4 i5 i6 i7 where
    g: "get_prop gs ''card_artwork'' = Some ca"
    and i: "game_design_item gd = Some i1" "rulebook_item rb = Some i2"
      "art_style_guide_item asg = Some i3" "starter_cards_item f gd = Some i4"
      "card_artwork_item ca = Some i5" "balance_analysis_item ba = Some i6"
      "qa_report_item f qa = Some i7"
    and t: "t = Element ''div'' [className ''w-full max-w-3xl mx-auto mt-8'']
          [Element ''Accordion''
             [(''type'', Str ''single''), (''collapsible'', Bool True),
              (''defaultValue'', Str ''game-design''), className ''w-full'']
             [i1, i2, i3, i4, i5, i6, i7]]"
    using assms by (auto simp: GeneratedGame_def bind_eq_Some_conv)
  have "accordion_items t =
      item_value i1 @ item_value i2 @ item_value i3 @ item_value i4 @
      item_value i5 @ item_value i6 @ item_value i7"
    by (simp add: t)
  moreover note game_design_item_value [OF i(1)] rulebook_item_value [OF i(2)]
    art_style_guide_item_value [OF i(3)] starter_cards_item_value [OF i(4)]
    card_artwork_item_value [OF i(5)] balance_analysis_item_value [OF i(6)]
    qa_report_item_value [OF i(7)]
  ultimately show ?thesis
    using g by (auto simp: card_artwork_guard_def split: if_splits)
qed

subsection \<open>The viewer on the sample game\<close>

lemma dummy_rulebook_field: "get_prop dummy_rulebook ''rulebook'' = Some Undefined"
  unfolding dummy_rulebook_def by (rule get_prop_Str_field [of "CHR ''r''"]) simp_all

lemma dummy_art_style_guide_field:
  "get_prop dummy_art_style_guide ''art_style_guide'' = Some Undefined"
  unfolding dummy_art_style_guide_def by (rule get_prop_Str_field [of "CHR ''r''"]) simp_all

lemma dummy_card_artwork_field: "get_prop dummy_card_artwork ''artwork'' = Some Undefined"
  unfolding dummy_card_artwork_def by (rule get_prop_Arr_artwork)

lemma dummy_truthy:
  "truthy dummy_rulebook" "truthy dummy_art_style_guide" "truthy dummy_card_artwork"
  by (simp_all add: dummy_rulebook_def dummy_art_style_guide_def dummy_card_artwork_def)

lemma dummy_starter_cards:
  "case starter_cards_item f dummy_game_design of
     None \<Rightarrow> False
   | Some n \<Rightarrow> renderable n \<and> item_value n = [''starter-cards'']"
  by (simp add: dummy_game_design_def starter_cards_item_def starter_card_def get_prop_Obj
      get_prop_Arr_length gt_zero_def className_def del: get_prop.simps)

lemma dummy_balance_analysis:
  "case balance_analysis_item dummy_balance_analysis of
     None \<Rightarrow> False
   | Some n \<Rightarrow> renderable n \<and> item_value n = [''balance-analysis'']"
  by (simp add: dummy_balance_analysis_def balance_analysis_item_def suggested_change_entry_def
      get_prop_Obj className_def del: get_prop.simps)

lemma dummy_qa_report:
  "case qa_report_item f dummy_qa_report of
     None \<Rightarrow> False
   | Some n \<Rightarrow> renderable n \<and> item_value n = [''qa-report'']"
  by (simp add: dummy_qa_report_def qa_report_item_def issues_found_block_def
      get_prop_Obj get_prop_Arr_length gt_zero_def className_def del: get_prop.simps)

lemma GeneratedGame_dummy:
  "case GeneratedGame f dummyGameState of
     None \<Rightarrow> False
   | Some t \<Rightarrow>
       renderable t \<and>
       accordion_items t =
         [''game-design'', ''rulebook'', ''art-style-guide'', ''starter-cards'',
          ''balance-analysis'', ''qa-report'']"
  using dummy_starter_cards [of f] dummy_balance_analysis dummy_qa_report [of f]
  apply (simp add: GeneratedGame_def dummyGameState_def get_prop_Obj
      del: get_prop.simps split: option.splits)
  apply (simp add: rulebook_item_def art_style_guide_item_def card_artwork_item_def
      dummy_rulebook_field dummy_art_style_guide_field dummy_card_artwork_field
      dummy_truthy className_def del: get_prop.simps)
  apply (simp add: dummy_game_design_def game_design_item_def get_prop_Obj className_def
      del: get_prop.simps)
  done

lemma artwork_sample_render:
  "GeneratedGame f artwork_sample = Some artwork_sample_tree"
  by (simp add: GeneratedGame_def artwork_sample_def artwork_sample_tree_def get_prop_Obj
      game_design_item_def rulebook_item_def art_style_guide_item_def starter_cards_item_def
      card_artwork_item_def artwork_entry_def balance_analysis_item_def qa_report_item_def
      join_elems_def className_def del: get_prop.simps)

text \<open>
  C10. The viewer returns \<^verbatim>\<open>null\<close> for a \<^verbatim>\<open>null\<close> or \<^verbatim>\<open>undefined\<close> game state. Whenever it
  returns a tree, the Card Artwork section is among the accordion items exactly when
  \<^verbatim>\<open>card_artwork\<close> is truthy, has a truthy \<^verbatim>\<open>artwork\<close> field, and that field has at least
  one key. For a \<^verbatim>\<open>card_artwork\<close> that is an array of records, the section's place holds
  \<^verbatim>\<open>undefined\<close>, which shows nothing, and no error is thrown there; on
  \<^verbatim>\<open>dummyGameState\<close> the viewer returns a tree that React accepts, with the six other
  sections and without Card Artwork.
\<close>

theorem GeneratedGame_card_artwork_section:
  "GeneratedGame str2num Null = Some (Text Null) \<and>
   GeneratedGame str2num Undefined = Some (Text Null) \<and>
   (GeneratedGame str2num gameState = Some tree \<longrightarrow>
      (''card-artwork'' \<in> set (accordion_items tree)) = card_artwork_guard gameState) \<and>
   card_artwork_item (Arr records) = Some (Text Undefined) \<and>
   (case GeneratedGame str2num dummyGameState of
      None \<Rightarrow> False
    | Some shown \<Rightarrow>
        renderable shown \<and>
        accordion_items shown =
          [''game-design'', ''rulebook'', ''art-style-guide'', ''starter-cards'',
           ''balance-analysis'', ''qa-report''])"
  using GeneratedGame_card_artwork [of str2num gameState tree]
    card_artwork_item_array [of records] GeneratedGame_dummy [of str2num]
  by (simp add: GeneratedGame_falsy)

theorem GeneratedGame_card_artwork_section_witness:
  "GeneratedGame (\<lambda>s. None) artwork_sample = Some artwork_sample_tree \<and>
   ''card-artwork'' \<in> set (accordion_items artwork_sample_tree) \<and>
   card_artwork_guard artwork_sample"
proof -
  have r: "GeneratedGame (\<lambda>s. None) artwork_sample = Some artwork_sample_tree"
    by (rule artwork_sample_render)
  have g: "card_artwork_guard artwork_sample"
    by (simp add: card_artwork_guard_def artwork_sample_def)
  from GeneratedGame_card_artwork_section
    [of "\<lambda>s. None" artwork_sample artwork_sample_tree "[]"] r g
  show ?thesis by simp
qed

section \<open>Properties of the application\<close>

lemma handleSubmit_dummy:
  "handleSubmit s = setTimeout ShowDummy 1000 (s\<lparr>loading := True, generatedGame := Null\<rparr>)"
  by (simp add: handleSubmit_def USE_DUMMY_DATA_def)

lemmas app_defs = setTimeout_def setInterval_def clearInterval_def fetch_def pollJobStatus_def
  poll_try_def poll_catch_def poll_settle_def submit_settle_def fire_def settle_def

lemma run_callback_form:
  "run_callback cb tid (s\<lparr>form := f\<rparr>) = (run_callback cb tid s)\<lparr>form := f\<rparr>"
  by (cases cb) (simp_all add: fetch_def)

lemma fire_form: "fire tid (s\<lparr>form := f\<rparr>) = (fire tid s)\<lparr>form := f\<rparr>"
proof (cases "map_of (timers s) tid")
  case None
  then show ?thesis by (simp add: fire_def)
next
  case (Some t)
  have swap: "s\<lparr>form := f, timers := ts\<rparr> = (s\<lparr>timers := ts\<rparr>)\<lparr>form := f\<rparr>" for ts
    by simp
  show ?thesis
    using Some by (cases t) (simp_all add: fire_def swap run_callback_form)
qed

lemma settle_form: "settle rid r (s\<lparr>form := f\<rparr>) = (settle rid r s)\<lparr>form := f\<rparr>"
  by (auto simp: app_defs Let_def
      split: option.splits continuation.splits fetch_result.splits bind_splits)

lemma handleSubmit_form: "handleSubmit (s\<lparr>form := f\<rparr>) = (handleSubmit s)\<lparr>form := f\<rparr>"
  by (simp add: handleSubmit_dummy setTimeout_def)

lemma step_form:
  "(\<And>g. e \<noteq> Edit g) \<Longrightarrow> step e (s\<lparr>form := f\<rparr>) = (step e s)\<lparr>form := f\<rparr>"
  by (cases e) (auto simp: fire_form settle_form handleSubmit_form)

lemma step_forget: "beyond_form (step e s) = step (forget_input e) (beyond_form s)"
proof (cases e)
  case (Edit f)
  then show ?thesis by (simp add: beyond_form_def)
next
  case Submit
  then show ?thesis using step_form [where e = e and s = s and f = initial_form] by (simp add: beyond_form_def)
next
  case (Fire tid)
  then show ?thesis using step_form [where e = e and s = s and f = initial_form] by (simp add: beyond_form_def)
next
  case (Settle rid r)
  then show ?thesis using step_form [where e = e and s = s and f = initial_form] by (simp add: beyond_form_def)
qed

lemma run_forget: "beyond_form (run evs s) = run (map forget_input evs) (beyond_form s)"
  by (induction evs arbitrary: s) (simp_all add: step_forget)

lemma dummy_only_step: "dummy_only s \<Longrightarrow> dummy_only (step e s)"
proof (cases e)
  case (Edit f)
  then show "dummy_only s \<Longrightarrow> ?thesis" by (simp add: dummy_only_def)
next
  case Submit
  then show "dummy_only s \<Longrightarrow> ?thesis" by (simp add: dummy_only_def handleSubmit_dummy setTimeout_def)
next
  case (Fire tid)
  assume d: "dummy_only s"
  show ?thesis
  proof (cases "map_of (timers s) tid")
    case None
    then show ?thesis using d Fire by (simp add: fire_def)
  next
    case (Some t)
    then have "(tid, t) \<in> set (timers s)" by (rule map_of_SomeD)
    then have "t = Timeout ShowDummy 1000"
      using d by (auto simp: dummy_only_def list_all_iff)
    then show ?thesis using d Fire Some
      by (auto simp: fire_def dummy_only_def list_all_iff)
  qed
next
  case (Settle rid r)
  then show "dummy_only s \<Longrightarrow> ?thesis" by (simp add: dummy_only_def settle_def)
qed

lemma dummy_only_run: "dummy_only s \<Longrightarrow> dummy_only (run evs s)"
  by (induction evs arbitrary: s) (simp_all add: dummy_only_step)

lemma dummy_only_initial: "dummy_only initial_state"
  by (simp add: dummy_only_def initial_state_def)

lemma map_of_append_fresh:
  "list_all (\<lambda>(i, t). i < n) xs \<Longrightarrow> map_of (xs @ [(n::nat, v)]) n = Some v"
  by (induction xs) auto

lemma submit_then_fire:
  assumes "fresh_ids s"
  shows "fire (next_timer s) (handleSubmit s) =
     s\<lparr>loading := False, generatedGame := dummyGameState, next_timer := Suc (next_timer s)\<rparr>"
proof -
  have m: "map_of (timers s @ [(next_timer s, Timeout ShowDummy 1000)]) (next_timer s)
      = Some (Timeout ShowDummy 1000)"
    using assms unfolding fresh_ids_def by (rule map_of_append_fresh)
  have f: "filter (\<lambda>(i, t). i \<noteq> next_timer s) (timers s) = timers s"
    using assms by (auto simp: fresh_ids_def list_all_iff intro!: filter_True)
  show ?thesis
    by (simp add: handleSubmit_dummy setTimeout_def fire_def m f del: map_of_append)
qed


lemma gone_fields [simp]:
  "gone i (s\<lparr>form := f\<rparr>) = gone i s"
  "gone i (s\<lparr>loading := b\<rparr>) = gone i s"
  "gone i (s\<lparr>generatedGame := g\<rparr>) = gone i s"
  "gone i (s\<lparr>console := c\<rparr>) = gone i s"
  "gone i (s\<lparr>pending := p\<rparr>) = gone i s"
  "gone i (s\<lparr>requests := q\<rparr>) = gone i s"
  "gone i (s\<lparr>next_request := n\<rparr>) = gone i s"
  by (simp_all add: gone_def fresh_ids_def timer_ids_def)

lemma gone_setTimeout: "gone i s \<Longrightarrow> gone i (setTimeout cb d s)"
  by (auto simp: gone_def fresh_ids_def timer_ids_def setTimeout_def list_all_iff)

lemma gone_setInterval: "gone i s \<Longrightarrow> gone i (setInterval cb d s)"
  by (auto simp: gone_def fresh_ids_def timer_ids_def setInterval_def list_all_iff)

lemma gone_clearInterval: "gone i s \<Longrightarrow> gone i (clearInterval j s)"
  by (auto simp: gone_def fresh_ids_def timer_ids_def clearInterval_def list_all_iff)

lemma gone_filter: "gone i s \<Longrightarrow> gone i (s\<lparr>timers := filter p (timers s)\<rparr>)"
  by (auto simp: gone_def fresh_ids_def timer_ids_def list_all_iff)

lemma gone_fetch: "gone i s \<Longrightarrow> gone i (fetch q k s)"
  by (simp add: fetch_def)

lemma gone_run_callback: "gone i s \<Longrightarrow> gone i (run_callback cb tid s)"
  by (cases cb) (simp_all add: gone_fetch)

lemma gone_fire: "gone i s \<Longrightarrow> gone i (fire tid s)"
  by (simp add: fire_def gone_run_callback gone_filter split: option.splits timer.splits)

lemma gone_poll_settle: "gone i s \<Longrightarrow> gone i (poll_settle j r s)"
  by (auto simp: poll_settle_def poll_try_def poll_catch_def gone_clearInterval
      split: fetch_result.splits option.splits bind_splits)

lemma gone_submit_settle: "gone i s \<Longrightarrow> gone i (submit_settle r s)"
  by (auto simp: submit_settle_def pollJobStatus_def gone_setInterval
      split: fetch_result.splits option.splits)

lemma gone_settle: "gone i s \<Longrightarrow> gone i (settle rid r s)"
  by (simp add: settle_def gone_poll_settle gone_submit_settle Let_def
      split: option.splits continuation.splits)

lemma gone_handleSubmit: "gone i s \<Longrightarrow> gone i (handleSubmit s)"
  by (simp add: handleSubmit_def Let_def gone_setTimeout gone_fetch)

lemma gone_step: "gone i s \<Longrightarrow> gone i (step e s)"
  by (cases e) (simp_all add: gone_fire gone_settle gone_handleSubmit)

lemma gone_run: "gone i s \<Longrightarrow> gone i (run evs s)"
  by (induction evs arbitrary: s) (simp_all add: gone_step)

lemma fire_gone: "gone i s \<Longrightarrow> fire i s = s"
proof -
  assume "gone i s"
  then have "i \<notin> fst ` set (timers s)" by (simp add: gone_def timer_ids_def)
  then have "map_of (timers s) i = None" by (simp add: map_of_eq_None_iff)
  then show ?thesis by (simp add: fire_def)
qed

lemma clearInterval_gone:
  "fresh_ids s \<Longrightarrow> i < next_timer s \<Longrightarrow> gone i (clearInterval i s)"
  by (auto simp: gone_def fresh_ids_def timer_ids_def clearInterval_def list_all_iff)


lemma displayed_game_beyond_form:
  "displayed_game f s = displayed_game f (beyond_form s)"
  by (simp add: displayed_game_def beyond_form_def)

lemma handleSubmit_network:
  "requests (handleSubmit s) = requests s \<and> pending (handleSubmit s) = pending s"
  by (simp add: handleSubmit_dummy setTimeout_def)

text \<open>
  C3. With \<open>USE_DUMMY_DATA = True\<close>, \<^verbatim>\<open>handleSubmit\<close> issues no request: it registers
  the one-second timeout and nothing else, and when that timeout fires the page holds
  \<^verbatim>\<open>dummyGameState\<close>, whatever state and form the submission started from. From the
  initial page no sequence of events ever produces a request, and the game held is
  \<^verbatim>\<open>null\<close> or \<^verbatim>\<open>dummyGameState\<close>. Two runs whose events differ only in what was typed
  into the form end in states that differ only in the form, and show the same game.
\<close>

theorem handleSubmit_independent_of_input:
  "handleSubmit s = setTimeout ShowDummy 1000 (s\<lparr>loading := True, generatedGame := Null\<rparr>) \<and>
   requests (handleSubmit s) = requests s \<and>
   pending (handleSubmit s) = pending s \<and>
   (fresh_ids s \<longrightarrow>
      fire (next_timer s) (handleSubmit s) =
        s\<lparr>loading := False, generatedGame := dummyGameState,
          next_timer := Suc (next_timer s)\<rparr>) \<and>
   (fresh_ids s \<and> fresh_ids s' \<longrightarrow>
      generatedGame (fire (next_timer s) (handleSubmit s)) =
      generatedGame (fire (next_timer s') (handleSubmit s'))) \<and>
   requests (run evs initial_state) = [] \<and>
   pending (run evs initial_state) = [] \<and>
   (generatedGame (run evs initial_state) = Null \<or>
    generatedGame (run evs initial_state) = dummyGameState) \<and>
   beyond_form (run evs s) = run (map forget_input evs) (beyond_form s) \<and>
   (map forget_input evs = map forget_input evs' \<longrightarrow>
      beyond_form (run evs s) = beyond_form (run evs' s) \<and>
      displayed_game str2num (run evs s) = displayed_game str2num (run evs' s))"
proof -
  have inv: "dummy_only (run evs initial_state)"
    by (rule dummy_only_run [OF dummy_only_initial])
  have two: "beyond_form (run evs s) = beyond_form (run evs' s)"
    if "map forget_input evs = map forget_input evs'"
    using that by (simp add: run_forget)
  have shown: "displayed_game str2num (run evs s) = displayed_game str2num (run evs' s)"
    if "map forget_input evs = map forget_input evs'"
    using two [OF that] displayed_game_beyond_form [of str2num "run evs s"]
      displayed_game_beyond_form [of str2num "run evs' s"] by simp
  have fired: "generatedGame (fire (next_timer x) (handleSubmit x)) = dummyGameState"
    if "fresh_ids x" for x
    using submit_then_fire [OF that] by simp
  have both: "generatedGame (fire (next_timer s) (handleSubmit s)) =
      generatedGame (fire (next_timer s') (handleSubmit s'))"
    if "fresh_ids s \<and> fresh_ids s'"
    using that fired [of s] fired [of s'] by simp
  have net: "requests (run evs initial_state) = []" "pending (run evs initial_state) = []"
    "generatedGame (run evs initial_state) = Null \<or>
     generatedGame (run evs initial_state) = dummyGameState"
    using inv by (simp_all add: dummy_only_def)
  note parts = handleSubmit_dummy [of s] handleSubmit_network [of s] submit_then_fire [of s]
    both net run_forget [of evs s] two shown
  show ?thesis
    using parts by blast
qed

theorem handleSubmit_independent_of_input_witness:
  "fresh_ids initial_state \<and>
   space_form \<noteq> fantasy_form \<and>
   map forget_input [Edit space_form, Submit, Fire 0] =
     map forget_input [Edit fantasy_form, Submit, Fire 0] \<and>
   generatedGame (run [Edit space_form, Submit, Fire 0] initial_state) = dummyGameState \<and>
   generatedGame (run [Edit fantasy_form, Submit, Fire 0] initial_state) = dummyGameState \<and>
   requests (run [Edit space_form, Submit, Fire 0] initial_state) = [] \<and>
   beyond_form (run [Edit space_form, Submit, Fire 0] initial_state) =
     beyond_form (run [Edit fantasy_form, Submit, Fire 0] initial_state)"
proof -
  have f: "fresh_ids initial_state"
    by (simp add: fresh_ids_def initial_state_def)
  have d: "space_form \<noteq> fantasy_form"
    by (simp add: space_form_def fantasy_form_def)
  have e: "map forget_input [Edit space_form, Submit, Fire 0] =
      map forget_input [Edit fantasy_form, Submit, Fire 0]"
    by simp
  have g1: "generatedGame (run [Edit space_form, Submit, Fire 0] initial_state) = dummyGameState"
    by (simp add: initial_state_def handleSubmit_dummy setTimeout_def fire_def)
  have g2: "generatedGame (run [Edit fantasy_form, Submit, Fire 0] initial_state) = dummyGameState"
    by (simp add: initial_state_def handleSubmit_dummy setTimeout_def fire_def)
  from handleSubmit_independent_of_input
    [of initial_state initial_state "[Edit space_form, Submit, Fire 0]"
      "[Edit fantasy_form, Submit, Fire 0]" "\<lambda>s. None"] f d e g1 g2
  show ?thesis by blast
qed

lemma stopped_forever:
  assumes "fresh_ids s" and "i < next_timer s" and "i \<notin> timer_ids (poll_settle i r s)"
  shows "i \<notin> timer_ids (run evs (poll_settle i r s)) \<and>
         fire i (run evs (poll_settle i r s)) = run evs (poll_settle i r s)"
proof -
  have "gone i s \<or> gone i (clearInterval i s)"
    using assms(1,2) by (simp add: clearInterval_gone)
  have p: "fresh_ids (poll_settle i r s) \<and> next_timer (poll_settle i r s) = next_timer s"
    using assms(1)
    by (auto simp: poll_settle_def poll_try_def poll_catch_def clearInterval_def fresh_ids_def
        list_all_iff split: fetch_result.splits option.splits bind_splits)
  then have "gone i (poll_settle i r s)"
    using assms(2,3) by (simp add: gone_def)
  then have g: "gone i (run evs (poll_settle i r s))"
    by (rule gone_run)
  then show ?thesis
    using fire_gone [OF g] by (simp add: gone_def)
qed

lemma poll_settle_cases:
  "poll_settle i r s =
     (if poll_threw r then
        clearInterval i (s\<lparr>console := console s @ [ErrorPolling], loading := False\<rparr>)
      else if terminal_status r then
        (case r of Resolved data \<Rightarrow>
           (case (get_prop data ''status'', get_prop data ''result'') of
              (Some observed, Some result) \<Rightarrow>
                if observed = Str ''complete'' then
                  clearInterval i (s\<lparr>generatedGame := result, loading := False\<rparr>)
                else
                  clearInterval i
                    (s\<lparr>console := console s @ [GenerationFailed result], loading := False\<rparr>)
            | _ \<Rightarrow> s)
         | Rejected \<Rightarrow> s)
      else s)"
  by (auto simp: poll_settle_def poll_try_def poll_catch_def poll_threw_def terminal_status_def
      get_prop_None_iff split: fetch_result.splits option.splits bind_splits)

lemma clearInterval_ids: "i \<notin> timer_ids (clearInterval i s)"
  by (auto simp: timer_ids_def clearInterval_def)

lemma poll_settle_stops:
  "i \<in> timer_ids s \<Longrightarrow>
   (i \<notin> timer_ids (poll_settle i r s)) = (terminal_status r \<or> poll_threw r)"
  apply (subst poll_settle_cases)
  apply (auto simp: clearInterval_ids terminal_status_def poll_threw_def get_prop_None_iff
      split: fetch_result.splits option.splits)
  done


lemma poll_settle_continue:
  "\<not> terminal_status r \<Longrightarrow> \<not> poll_threw r \<Longrightarrow> poll_settle i r s = s"
  by (simp add: poll_settle_cases)

lemma poll_settle_complete:
  "get_prop data ''status'' = Some (Str ''complete'') \<Longrightarrow>
   get_prop data ''result'' = Some result \<Longrightarrow>
   poll_settle i (Resolved data) s =
     clearInterval i (s\<lparr>generatedGame := result, loading := False\<rparr>)"
  by (simp add: poll_settle_def poll_try_def)

lemma poll_settle_failed:
  assumes "get_prop data ''status'' = Some (Str ''failed'')"
  shows "generatedGame (poll_settle i (Resolved data) s) = generatedGame s \<and>
     \<not> loading (poll_settle i (Resolved data) s) \<and>
     i \<notin> timer_ids (poll_settle i (Resolved data) s)"
proof -
  from assms have "get_prop data ''result'' \<noteq> None"
    by (auto simp: get_prop_None_iff)
  then obtain result where "get_prop data ''result'' = Some result" by auto
  with assms have "poll_settle i (Resolved data) s =
      clearInterval i (s\<lparr>console := console s @ [GenerationFailed result], loading := False\<rparr>)"
    by (simp add: poll_settle_def poll_try_def)
  then show ?thesis
    by (auto simp: clearInterval_def timer_ids_def)
qed

lemma fire_interval:
  "map_of (timers s) tid = Some (Interval (PollTick jobId) delay) \<Longrightarrow>
   fire tid s = fetch (GameStatus jobId) (AfterStatus tid) s"
  by (simp add: fire_def)

lemma pollJobStatus_registers:
  "pollJobStatus jobId s =
     s\<lparr>timers := timers s @ [(next_timer s, Interval (PollTick jobId) 5000)],
       next_timer := Suc (next_timer s)\<rparr>"
  by (simp add: pollJobStatus_def setInterval_def)

lemma poll_threw_iff:
  "poll_threw r \<longleftrightarrow> r = Rejected \<or> r = Resolved Null \<or> r = Resolved Undefined"
  by (cases r) (auto simp: poll_threw_def get_prop_None_iff)

lemma poll_settle_threw:
  "poll_threw r \<Longrightarrow>
   poll_settle i r s =
     clearInterval i (s\<lparr>console := console s @ [ErrorPolling], loading := False\<rparr>)"
  by (simp add: poll_settle_cases)

lemma poll_settle_thrown:
  assumes "r = Rejected \<or> r = Resolved Null \<or> r = Resolved Undefined"
  shows "generatedGame (poll_settle i r s) = generatedGame s \<and>
     \<not> loading (poll_settle i r s) \<and> i \<notin> timer_ids (poll_settle i r s)"
proof -
  from assms have "poll_threw r" by (simp add: poll_threw_iff)
  from poll_settle_threw [OF this, of i s] show ?thesis
    by (auto simp: clearInterval_def timer_ids_def)
qed

lemma submit_settle_polls:
  "get_prop body ''job_id'' = Some jobId \<Longrightarrow> truthy jobId \<Longrightarrow>
   submit_settle (Resolved body) s = pollJobStatus jobId s"
  by (simp add: submit_settle_def)

text \<open>
  C4, as the code has it. When the submission's response carries a job id,
  \<^verbatim>\<open>pollJobStatus\<close> is called with it; it registers an interval of 5000 ms whose every
  firing issues one status request. A settled poll clears the interval exactly when the
  status it carries is \<^verbatim>\<open>complete\<close> or \<^verbatim>\<open>failed\<close>, or when the callback threw: the request
  or the parse failed, or the body is \<^verbatim>\<open>null\<close> or \<^verbatim>\<open>undefined\<close>, whose status cannot be
  read. With any other answer the state is unchanged and polling goes on. On \<^verbatim>\<open>complete\<close>
  the returned result is stored and loading ends; on \<^verbatim>\<open>failed\<close>, and when the callback
  threw, loading ends and the stored game is untouched. Once cleared, the interval is
  never registered again and its firing does nothing.
\<close>

theorem pollJobStatus_stops_on_terminal_or_error:
  "(get_prop body ''job_id'' = Some jobId \<and> truthy jobId \<longrightarrow>
      submit_settle (Resolved body) s = pollJobStatus jobId s) \<and>
   pollJobStatus jobId s =
     s\<lparr>timers := timers s @ [(next_timer s, Interval (PollTick jobId) 5000)],
       next_timer := Suc (next_timer s)\<rparr> \<and>
   (map_of (timers s) interval = Some (Interval (PollTick jobId) delay) \<longrightarrow>
      fire interval s = fetch (GameStatus jobId) (AfterStatus interval) s) \<and>
   (interval \<in> timer_ids s \<longrightarrow>
      (interval \<notin> timer_ids (poll_settle interval r s)) =
        (terminal_status r \<or> r = Rejected \<or> r = Resolved Null \<or> r = Resolved Undefined)) \<and>
   (\<not> terminal_status r \<and> r \<noteq> Rejected \<and> r \<noteq> Resolved Null \<and> r \<noteq> Resolved Undefined \<longrightarrow>
      poll_settle interval r s = s) \<and>
   (get_prop data ''status'' = Some (Str ''complete'') \<and>
    get_prop data ''result'' = Some result \<longrightarrow>
      poll_settle interval (Resolved data) s =
        clearInterval interval (s\<lparr>generatedGame := result, loading := False\<rparr>)) \<and>
   (get_prop data ''status'' = Some (Str ''failed'') \<longrightarrow>
      generatedGame (poll_settle interval (Resolved data) s) = generatedGame s \<and>
      \<not> loading (poll_settle interval (Resolved data) s) \<and>
      interval \<notin> timer_ids (poll_settle interval (Resolved data) s)) \<and>
   (r = Rejected \<or> r = Resolved Null \<or> r = Resolved Undefined \<longrightarrow>
      generatedGame (poll_settle interval r s) = generatedGame s \<and>
      \<not> loading (poll_settle interval r s) \<and>
      interval \<notin> timer_ids (poll_settle interval r s)) \<and>
   (fresh_ids s \<and> interval < next_timer s \<and>
    interval \<notin> timer_ids (poll_settle interval r s) \<longrightarrow>
      interval \<notin> timer_ids (run evs (poll_settle interval r s)) \<and>
      fire interval (run evs (poll_settle interval r s)) = run evs (poll_settle interval r s))"
proof -
  note t = poll_threw_iff [of r]
  have 0: "get_prop body ''job_id'' = Some jobId \<and> truthy jobId \<longrightarrow>
      submit_settle (Resolved body) s = pollJobStatus jobId s"
    using submit_settle_polls [of body jobId s] by blast
  have 1: "interval \<in> timer_ids s \<longrightarrow>
      (interval \<notin> timer_ids (poll_settle interval r s)) =
        (terminal_status r \<or> r = Rejected \<or> r = Resolved Null \<or> r = Resolved Undefined)"
    using poll_settle_stops [of interval s r] unfolding t by blast
  have 2: "\<not> terminal_status r \<and> r \<noteq> Rejected \<and> r \<noteq> Resolved Null \<and>
      r \<noteq> Resolved Undefined \<longrightarrow> poll_settle interval r s = s"
    using poll_settle_continue [of r interval s] unfolding t by blast
  have 3: "r = Rejected \<or> r = Resolved Null \<or> r = Resolved Undefined \<longrightarrow>
      generatedGame (poll_settle interval r s) = generatedGame s \<and>
      \<not> loading (poll_settle interval r s) \<and>
      interval \<notin> timer_ids (poll_settle interval r s)"
    using poll_settle_thrown [of r interval s] by blast
  show ?thesis
    using 0 1 2 3 pollJobStatus_registers [of jobId s] fire_interval [of s interval jobId delay]
      poll_settle_complete [of data result interval s] poll_settle_failed [of data interval s]
      stopped_forever [of s interval r evs]
    by blast
qed

lemma polling_state_eq:
  "polling_state =
     initial_state\<lparr>loading := True, timers := [(0, Interval (PollTick (Str ''job-1'')) 5000)],
       next_timer := Suc 0\<rparr>"
  by (simp add: polling_state_def pollJobStatus_def setInterval_def initial_state_def)

theorem pollJobStatus_stops_on_terminal_or_error_witness:
  "get_prop (Obj [(''job_id'', Str ''job-1'')]) ''job_id'' = Some (Str ''job-1'') \<and>
   truthy (Str ''job-1'') \<and>
   submit_settle (Resolved (Obj [(''job_id'', Str ''job-1'')])) (initial_state\<lparr>loading := True\<rparr>) =
     polling_state \<and>
   map_of (timers polling_state) 0 = Some (Interval (PollTick (Str ''job-1'')) 5000) \<and>
   0 \<in> timer_ids polling_state \<and> fresh_ids polling_state \<and> 0 < next_timer polling_state \<and>
   get_prop job_complete ''status'' = Some (Str ''complete'') \<and>
   get_prop job_complete ''result'' = Some dummyGameState \<and>
   \<not> terminal_status (Resolved job_running) \<and>
   poll_settle 0 (Resolved job_running) polling_state = polling_state \<and>
   generatedGame (poll_settle 0 (Resolved job_complete) polling_state) = dummyGameState \<and>
   0 \<notin> timer_ids (run [Fire 0, Fire 0] (poll_settle 0 (Resolved job_complete) polling_state)) \<and>
   0 \<notin> timer_ids (poll_settle 0 (Resolved Null) polling_state) \<and>
   generatedGame (poll_settle 0 (Resolved Null) polling_state) = generatedGame polling_state"
proof -
  let ?body = "Obj [(''job_id'', Str ''job-1'')]"
  let ?s0 = "initial_state\<lparr>loading := True\<rparr>"
  have j: "get_prop ?body ''job_id'' = Some (Str ''job-1'')" "truthy (Str ''job-1'')"
    by simp_all
  have a: "map_of (timers polling_state) 0 = Some (Interval (PollTick (Str ''job-1'')) 5000)"
    "0 \<in> timer_ids polling_state" "fresh_ids polling_state" "0 < next_timer polling_state"
    by (simp_all add: polling_state_eq timer_ids_def fresh_ids_def)
  have b: "get_prop job_complete ''status'' = Some (Str ''complete'')"
    "get_prop job_complete ''result'' = Some dummyGameState"
    by (simp_all add: job_complete_def)
  have c: "\<not> terminal_status (Resolved job_running)" "Resolved job_running \<noteq> Rejected"
    "Resolved job_running \<noteq> Resolved Null" "Resolved job_running \<noteq> Resolved Undefined"
    by (simp_all add: job_running_def terminal_status_def)
  have t: "terminal_status (Resolved job_complete)"
    by (simp add: job_complete_def terminal_status_def)
  note inst0 = pollJobStatus_stops_on_terminal_or_error
    [of ?body "Str ''job-1''" ?s0 0 5000 "Resolved Null" job_complete dummyGameState "[]"]
  note inst1 = pollJobStatus_stops_on_terminal_or_error
    [of ?body "Str ''job-1''" polling_state 0 5000 "Resolved job_running" job_complete
      dummyGameState "[]"]
  note inst2 = pollJobStatus_stops_on_terminal_or_error
    [of ?body "Str ''job-1''" polling_state 0 5000 "Resolved job_complete" job_complete
      dummyGameState "[Fire 0, Fire 0]"]
  note inst3 = pollJobStatus_stops_on_terminal_or_error
    [of ?body "Str ''job-1''" polling_state 0 5000 "Resolved Null" job_complete
      dummyGameState "[]"]
  have s: "submit_settle (Resolved ?body) ?s0 = polling_state"
    using inst0 j unfolding polling_state_def by blast
  have g: "generatedGame (poll_settle 0 (Resolved job_complete) polling_state) = dummyGameState"
    using inst1 b by (simp add: clearInterval_def)
  have r: "poll_settle 0 (Resolved job_running) polling_state = polling_state"
    using inst1 c by blast
  have f: "0 \<notin> timer_ids (run [Fire 0, Fire 0] (poll_settle 0 (Resolved job_complete) polling_state))"
    using inst2 a t by blast
  have n: "0 \<notin> timer_ids (poll_settle 0 (Resolved Null) polling_state)"
    "generatedGame (poll_settle 0 (Resolved Null) polling_state) = generatedGame polling_state"
    using inst3 by blast+
  show ?thesis
    using j s a b c(1) r g f n by (intro conjI)
qed

text \<open>
  C4 as stated fails in the ``exactly'': a poll whose request is rejected, and one whose
  body is \<^verbatim>\<open>null\<close>, clear the interval although no terminal status was observed.
\<close>

theorem pollJobStatus_stops_without_terminal_status:
  "0 \<in> timer_ids polling_state \<and>
   \<not> terminal_status Rejected \<and>
   0 \<notin> timer_ids (poll_settle 0 Rejected polling_state) \<and>
   timers (run [Fire 0, Settle 0 Rejected] polling_state) = [] \<and>
   \<not> terminal_status (Resolved Null) \<and>
   0 \<notin> timer_ids (poll_settle 0 (Resolved Null) polling_state) \<and>
   timers (run [Fire 0, Settle 0 (Resolved Null)] polling_state) = []"
  by (simp add: polling_state_eq timer_ids_def terminal_status_def poll_settle_def poll_catch_def
      poll_try_def clearInterval_def fire_def fetch_def settle_def initial_state_def)

text \<open>
  C9. When a poll throws (the request or the parse fails, or the body is \<^verbatim>\<open>null\<close>), the
  callback logs the error, resets the loading flag and clears its interval; the stored
  game is untouched and no request is issued in its place. Nothing about the job's
  status enters. From then on, through any sequence of events, the interval is never
  registered again and its firing does nothing.
\<close>

theorem pollJobStatus_abandons_on_error:
  "poll_threw Rejected \<and>
   (poll_threw r \<longrightarrow>
      poll_settle interval r s =
        clearInterval interval (s\<lparr>console := console s @ [ErrorPolling], loading := False\<rparr>) \<and>
      \<not> loading (poll_settle interval r s) \<and>
      interval \<notin> timer_ids (poll_settle interval r s) \<and>
      generatedGame (poll_settle interval r s) = generatedGame s \<and>
      requests (poll_settle interval r s) = requests s \<and>
      pending (poll_settle interval r s) = pending s) \<and>
   (poll_threw r \<and> fresh_ids s \<and> interval < next_timer s \<longrightarrow>
      interval \<notin> timer_ids (run evs (poll_settle interval r s)) \<and>
      fire interval (run evs (poll_settle interval r s)) = run evs (poll_settle interval r s))"
proof -
  have 1: "poll_threw Rejected" by (simp add: poll_threw_def)
  have 2: "poll_settle interval r s =
        clearInterval interval (s\<lparr>console := console s @ [ErrorPolling], loading := False\<rparr>) \<and>
      \<not> loading (poll_settle interval r s) \<and>
      interval \<notin> timer_ids (poll_settle interval r s) \<and>
      generatedGame (poll_settle interval r s) = generatedGame s \<and>
      requests (poll_settle interval r s) = requests s \<and>
      pending (poll_settle interval r s) = pending s" if "poll_threw r"
    using poll_settle_threw [OF that, of interval s]
    by (auto simp: clearInterval_def timer_ids_def)
  have 3: "interval \<notin> timer_ids (run evs (poll_settle interval r s)) \<and>
      fire interval (run evs (poll_settle interval r s)) = run evs (poll_settle interval r s)"
    if "poll_threw r \<and> fresh_ids s \<and> interval < next_timer s"
    using that 2 stopped_forever [of s interval r evs] by blast
  show ?thesis using 1 2 3 by blast
qed

theorem pollJobStatus_abandons_on_error_witness:
  "poll_threw Rejected \<and> fresh_ids polling_state \<and> 0 < next_timer polling_state \<and>
   loading polling_state \<and> 0 \<in> timer_ids polling_state \<and>
   \<not> loading (poll_settle 0 Rejected polling_state) \<and>
   0 \<notin> timer_ids (run [Fire 0, Edit space_form, Fire 0] (poll_settle 0 Rejected polling_state)) \<and>
   requests (poll_settle 0 Rejected polling_state) = requests polling_state"
proof -
  have a: "fresh_ids polling_state" "0 < next_timer polling_state" "loading polling_state"
    "0 \<in> timer_ids polling_state"
    by (simp_all add: polling_state_eq timer_ids_def fresh_ids_def)
  from pollJobStatus_abandons_on_error
    [of Rejected 0 polling_state "[Fire 0, Edit space_form, Fire 0]"] a
  show ?thesis by blast
qed


section \<open>Properties of the orchestration engine\<close>

lemma stages_UNIV: "set required_stages = UNIV"
proof -
  have "st \<in> set required_stages" for st
    by (cases st) (simp_all add: required_stages_def)
  then show ?thesis by auto
qed

lemma and_then_Inr: "and_then r f = Inr y \<longleftrightarrow> (\<exists>x. r = Inr x \<and> f x = Inr y)"
  by (cases r) (simp_all add: and_then_def)

lemma and_then_Inl: "and_then r f = Inl e \<longleftrightarrow> r = Inl e \<or> (\<exists>x. r = Inr x \<and> f x = Inl e)"
  by (cases r) (simp_all add: and_then_def)

lemma all_valid_iff: "all_valid cfg agg \<longleftrightarrow> (\<forall>st v. agg st = Some v \<longrightarrow> schema cfg st v)"
  by (auto simp: all_valid_def list_all_iff stages_UNIV split: option.splits)

lemma all_present_iff: "all_present agg \<longleftrightarrow> (\<forall>st. agg st \<noteq> None)"
  by (simp add: all_present_def list_all_iff stages_UNIV)

lemma all_declared_iff:
  "all_declared agg \<longleftrightarrow> (\<forall>st v. agg st = Some v \<longrightarrow> declared_shape st v)"
  by (auto simp: all_declared_def list_all_iff stages_UNIV split: option.splits)

lemma closed_iff: "closed agg \<longleftrightarrow> (\<forall>st. agg st = None \<or> deps_present agg st)"
  unfolding closed_def list_all_iff stages_UNIV by simp

lemma deps_present_upd: "deps_present agg st \<Longrightarrow> deps_present (agg(s \<mapsto> v)) st"
  by (auto simp: deps_present_def list_all_iff)

lemma attempt_valid: "attempt cfg valid st input n history = Inr v \<Longrightarrow> valid v"
  by (induction n arbitrary: history) (auto split: reply.splits if_splits)

lemma invoke_valid:
  "invoke cfg valid st agg extra = Inr v \<Longrightarrow> valid v \<and> deps_present agg st"
  by (auto simp: invoke_def split: if_splits dest: attempt_valid)

lemma sound_upd:
  assumes "sound cfg agg" "valid_output cfg st v" "deps_present agg st"
  shows "sound cfg (agg(st \<mapsto> v))"
  using assms
  by (auto simp: sound_def valid_output_def all_valid_iff all_declared_iff closed_iff
      deps_present_upd)

lemma run_stage_Inr:
  assumes "run_stage cfg st extra j = Inr j'"
  shows "\<exists>v. valid_output cfg st v \<and> deps_present (aggregate j) st \<and>
     j' = j\<lparr>aggregate := (aggregate j)(st \<mapsto> v), version := Suc (version j)\<rparr>"
  using assms by (auto simp: run_stage_def and_then_Inr merge_def split: if_splits dest: invoke_valid)

lemma run_stage_sound:
  "run_stage cfg st extra j = Inr j' \<Longrightarrow> sound cfg (aggregate j) \<Longrightarrow>
   sound cfg (aggregate j') \<and> status j' = status j"
  by (auto dest!: run_stage_Inr simp: sound_upd)

lemma feedback_round_sound:
  "feedback_round cfg j = Inr j' \<Longrightarrow> sound cfg (aggregate j) \<Longrightarrow>
   sound cfg (aggregate j') \<and> status j' = status j"
proof -
  assume r: "feedback_round cfg j = Inr j'" and s: "sound cfg (aggregate j)"
  show ?thesis
  proof (cases "aggregate j BalanceAnalysis")
    case None
    with r s show ?thesis by (simp add: feedback_round_def)
  next
    case (Some review)
    with r obtain j1 where
      a: "run_stage cfg GameDesign
            [(''suggested_card_changes'', Arr (suggested_changes review))] j = Inr j1"
      and b: "run_stage cfg BalanceAnalysis [] j1 = Inr j'"
      by (auto simp: feedback_round_def and_then_Inr)
    from run_stage_sound [OF a s] run_stage_sound [OF b] show ?thesis by simp
  qed
qed

lemma balance_loop_sound:
  "balance_loop cfg n j = Inr j' \<Longrightarrow> sound cfg (aggregate j) \<Longrightarrow>
   sound cfg (aggregate j') \<and> status j' = status j"
proof (induction n arbitrary: j)
  case 0
  then show ?case by simp
next
  case (Suc n)
  show ?case
  proof (cases "unresolved j")
    case False
    with Suc.prems show ?thesis by simp
  next
    case True
    with Suc.prems obtain j1 where r: "feedback_round cfg j = Inr j1"
      and l: "balance_loop cfg n j1 = Inr j'"
      by (auto simp: and_then_Inr)
    from feedback_round_sound [OF r Suc.prems(2)] Suc.IH [OF l] show ?thesis by simp
  qed
qed

lemma settle_design_sound:
  "settle_design cfg j = Inr j' \<Longrightarrow> sound cfg (aggregate j) \<Longrightarrow>
   sound cfg (aggregate j') \<and> status j' = status j"
proof -
  assume r: "settle_design cfg j = Inr j'" and s: "sound cfg (aggregate j)"
  from r obtain j1 j2 where a: "run_stage cfg GameDesign [] j = Inr j1"
    and b: "run_stage cfg BalanceAnalysis [] j1 = Inr j2"
    and c: "balance_loop cfg (max_rounds cfg) j2 = Inr j'"
    by (auto simp: settle_design_def and_then_Inr)
  from run_stage_sound [OF a s] have 1: "sound cfg (aggregate j1)" "status j1 = status j"
    by simp_all
  from run_stage_sound [OF b 1(1)] have 2: "sound cfg (aggregate j2)" "status j2 = status j1"
    by simp_all
  from balance_loop_sound [OF c 2(1)] 1 2 show ?thesis by simp
qed

lemma invoke_all_valid:
  "invoke_all cfg agg sts = Inr rs \<Longrightarrow> list_all (\<lambda>(st, v). valid_output cfg st v) rs"
  by (induction sts arbitrary: rs) (auto simp: and_then_Inr dest: invoke_valid)

lemma merge_all_sound:
  "merge_all rs j = Inr j' \<Longrightarrow> list_all (\<lambda>(st, v). valid_output cfg st v) rs \<Longrightarrow>
   sound cfg (aggregate j) \<Longrightarrow> sound cfg (aggregate j') \<and> status j' = status j"
proof (induction rs arbitrary: j)
  case Nil
  then show ?case by simp
next
  case (Cons r rs)
  obtain st v where r: "r = (st, v)" by (cases r)
  with Cons.prems obtain j1 where m: "merge st v j = Inr j1" and a: "merge_all rs j1 = Inr j'"
    by (auto simp: and_then_Inr)
  from m have j1: "j1 = j\<lparr>aggregate := (aggregate j)(st \<mapsto> v), version := Suc (version j)\<rparr>"
    and d: "deps_present (aggregate j) st"
    by (auto simp: merge_def split: if_splits)
  have v: "valid_output cfg st v" and vs: "list_all (\<lambda>(st, v). valid_output cfg st v) rs"
    using Cons.prems(2) r by simp_all
  have s1: "sound cfg (aggregate j1)"
    unfolding j1 using sound_upd [OF Cons.prems(3) v d] by simp
  have "status j1 = status j" by (simp add: j1)
  with Cons.IH [OF a vs s1] show ?case by simp
qed

lemma run_rounds_sound:
  "run_rounds cfg j = Inr j' \<Longrightarrow> sound cfg (aggregate j) \<Longrightarrow>
   sound cfg (aggregate j') \<and> status j' = status j \<and> aggregate j' QaReport \<noteq> None"
proof (induction cfg j rule: run_rounds.induct)
  case (1 cfg j)
  show ?case
  proof (cases "aggregate j QaReport \<noteq> None")
    case True
    with "1.prems" show ?thesis by (simp add: run_rounds.simps [of cfg j])
  next
    case False
    with "1.prems"(1) obtain j1 where
      step: "and_then (invoke_all cfg (aggregate j) (ready (aggregate j))) (\<lambda>rs. merge_all rs j) = Inr j1"
      and less: "length (unmerged j1) < length (unmerged j)"
      and rest: "run_rounds cfg j1 = Inr j'"
      by (subst (asm) run_rounds.simps) (auto split: sum.splits if_splits)
    from step obtain rs where i: "invoke_all cfg (aggregate j) (ready (aggregate j)) = Inr rs"
      and m: "merge_all rs j = Inr j1"
      by (auto simp: and_then_Inr)
    from merge_all_sound [OF m invoke_all_valid [OF i] "1.prems"(2)]
    have s1: "sound cfg (aggregate j1)" and st1: "status j1 = status j" by simp_all
    from "1.IH" [OF _ step less rest s1] False st1 show ?thesis by simp
  qed
qed

lemma closed_qa_all_present:
  "closed agg \<Longrightarrow> agg QaReport \<noteq> None \<Longrightarrow> all_present agg"
proof -
  assume c: "closed agg" and q: "agg QaReport \<noteq> None"
  then have d: "deps_present agg QaReport" unfolding closed_iff by (metis)
  have "agg st \<noteq> None" for st
    using d q by (cases st) (auto simp: deps_present_def)
  then show ?thesis by (simp add: all_present_iff)
qed

lemma same_dom_sound:
  assumes "\<And>st. (agg' st = None) = (agg st = None)"
    and "\<And>st v. agg' st = Some v \<Longrightarrow> valid_output cfg st v \<or> agg st = Some v"
    and "sound cfg agg"
  shows "sound cfg agg'"
proof -
  have d: "deps_present agg' st = deps_present agg st" for st
    by (simp add: deps_present_def assms(1))
  have v: "schema cfg st v \<and> declared_shape st v" if "agg' st = Some v" for st v
    using assms(2) [OF that] assms(3)
    by (auto simp: valid_output_def sound_def all_valid_iff all_declared_iff)
  have c: "agg' st = None \<or> deps_present agg' st" for st
    using assms(1) [of st] assms(3) unfolding sound_def closed_iff d by metis
  from v c show ?thesis
    unfolding sound_def all_valid_iff all_declared_iff closed_iff by blast
qed

lemma same_dom_present:
  "(\<And>st. (agg' st = None) = (agg st = None)) \<Longrightarrow> all_present agg \<Longrightarrow> all_present agg'"
  by (simp add: all_present_iff)

lemma regenerate_stage_Inr:
  assumes "regenerate_stage cfg st j = Inr j'"
  shows "\<exists>v. valid_output cfg st v \<and>
     j' = j\<lparr>aggregate := (aggregate j)(st \<mapsto> v), version := Suc (version j)\<rparr>"
  using assms by (auto simp: regenerate_stage_def and_then_Inr dest: invoke_valid)

lemma regenerate_card_in_Inr:
  assumes "regenerate_card_in cfg c prior st acc = Inr acc'"
  shows "case prior st of
       None \<Rightarrow> acc' = acc
     | Some old \<Rightarrow>
         if card_entries st c old = [] then acc' = acc
         else \<exists>e. entry_for st c e \<and> valid_output cfg st (replace_card st c e old) \<and>
                acc' = acc(st \<mapsto> replace_card st c e old)"
  using assms
  by (auto simp: regenerate_card_in_def and_then_Inr split: option.splits if_splits
      dest!: invoke_valid)

lemma regenerate_card_stages_Inr:
  assumes "regenerate_card_stages cfg c prior sts acc = Inr acc'" and "distinct sts"
  shows "(st \<notin> set sts \<longrightarrow> acc' st = acc st) \<and>
         (st \<in> set sts \<longrightarrow>
            (case prior st of
               None \<Rightarrow> acc' st = acc st
             | Some old \<Rightarrow>
                 if card_entries st c old = [] then acc' st = acc st
                 else \<exists>e. entry_for st c e \<and> valid_output cfg st (replace_card st c e old) \<and>
                        acc' st = Some (replace_card st c e old)))"
  using assms
proof (induction sts arbitrary: acc)
  case Nil
  then show ?case by simp
next
  case (Cons s sts)
  from Cons.prems obtain acc1 where
    a: "regenerate_card_in cfg c prior s acc = Inr acc1"
    and b: "regenerate_card_stages cfg c prior sts acc1 = Inr acc'"
    by (auto simp: and_then_Inr)
  from Cons.prems have d: "distinct sts" and n: "s \<notin> set sts" by simp_all
  note ih = Cons.IH [OF b d]
  note one = regenerate_card_in_Inr [OF a]
  have other: "acc1 x = acc x" if "x \<noteq> s" for x
    using one that by (auto split: option.splits if_splits)
  have here: "case prior s of
       None \<Rightarrow> acc1 s = acc s
     | Some old \<Rightarrow>
         if card_entries s c old = [] then acc1 s = acc s
         else \<exists>e. entry_for s c e \<and> valid_output cfg s (replace_card s c e old) \<and>
                acc1 s = Some (replace_card s c e old)"
    using one by (auto split: option.splits if_splits)
  show ?case
  proof (cases "st = s")
    case True
    from ih True n have "acc' s = acc1 s" by simp
    with here True n show ?thesis
      by (auto split: option.splits if_splits)
  next
    case False
    with ih other [of st] show ?thesis
      by (auto split: option.splits if_splits)
  qed
qed

lemma regenerate_card_Inr:
  assumes "regenerate_card cfg c j = Inr j'"
  shows "j' = j\<lparr>aggregate := aggregate j', version := Suc (version j)\<rparr> \<and>
     (case aggregate j st of
        None \<Rightarrow> aggregate j' st = None
      | Some old \<Rightarrow>
          if st \<in> set card_stages \<and> card_entries st c old \<noteq> []
          then \<exists>e. entry_for st c e \<and> valid_output cfg st (replace_card st c e old) \<and>
                 aggregate j' st = Some (replace_card st c e old)
          else aggregate j' st = Some old)"
proof -
  from assms obtain agg where
    a: "regenerate_card_stages cfg c (aggregate j) card_stages (aggregate j) = Inr agg"
    and j': "j' = j\<lparr>aggregate := agg, version := Suc (version j)\<rparr>"
    by (auto simp: regenerate_card_def and_then_Inr split: if_splits)
  have "distinct card_stages" by (simp add: card_stages_def)
  from regenerate_card_stages_Inr [OF a this, of st] show ?thesis
    by (cases "st \<in> set card_stages") (auto simp: j' split: option.splits if_splits)
qed

lemma regenerate_card_dom:
  assumes "regenerate_card cfg c j = Inr j'"
  shows "(aggregate j' st = None) = (aggregate j st = None)"
    and "aggregate j' st = Some v \<Longrightarrow> valid_output cfg st v \<or> aggregate j st = Some v"
  using regenerate_card_Inr [OF assms, of st]
  by (auto split: option.splits if_splits)

lemma regenerate_card_ok:
  assumes "regenerate_card cfg c j = Inr j'" and "job_ok cfg j"
    and "all_present (aggregate j)"
  shows "sound cfg (aggregate j') \<and> all_present (aggregate j')"
proof -
  have s: "sound cfg (aggregate j)" using assms(2) by (simp add: job_ok_def)
  have "sound cfg (aggregate j')"
    by (rule same_dom_sound [OF regenerate_card_dom [OF assms(1)] s])
  moreover have "all_present (aggregate j')"
    by (rule same_dom_present [OF regenerate_card_dom(1) [OF assms(1)] assms(3)])
  ultimately show ?thesis by simp
qed

lemma regenerate_stage_ok:
  assumes "regenerate_stage cfg st j = Inr j'" and "job_ok cfg j"
    and p: "all_present (aggregate j)"
  shows "sound cfg (aggregate j') \<and> all_present (aggregate j')"
proof -
  from regenerate_stage_Inr [OF assms(1)] obtain v where v: "valid_output cfg st v"
    and j': "j' = j\<lparr>aggregate := (aggregate j)(st \<mapsto> v), version := Suc (version j)\<rparr>"
    by auto
  from assms(2) have s: "sound cfg (aggregate j)"
    by (simp add: job_ok_def)
  have dom: "(aggregate j' x = None) = (aggregate j x = None)" for x
    using p by (simp add: j' all_present_iff)
  have val: "valid_output cfg x w \<or> aggregate j x = Some w" if "aggregate j' x = Some w" for x w
    using that v by (auto simp: j' split: if_splits)
  have "sound cfg (aggregate j')"
    by (rule same_dom_sound [OF dom val s])
  moreover have "all_present (aggregate j')"
    by (rule same_dom_present [OF dom p])
  ultimately show ?thesis by simp
qed

lemma rerun_ok:
  assumes "rerun cfg tgt j = Inr j'" and "job_ok cfg j" and "all_present (aggregate j)"
  shows "sound cfg (aggregate j') \<and> all_present (aggregate j')"
proof (cases tgt)
  case (WholeStage st)
  with assms(1) have "regenerate_stage cfg st j = Inr j'" by (simp add: rerun_def)
  from regenerate_stage_ok [OF this assms(2,3)] show ?thesis .
next
  case (SingleCard c)
  with assms(1) have "regenerate_card cfg c j = Inr j'" by (simp add: rerun_def)
  from regenerate_card_ok [OF this assms(2,3)] show ?thesis .
qed

lemma finish_regeneration_ok:
  assumes "job_ok cfg j" and "all_present (aggregate j)"
  shows "job_ok cfg (finish_regeneration cfg tgt j)"
proof (cases "rerun cfg tgt j")
  case (Inl e)
  with assms show ?thesis by (simp add: finish_regeneration_def job_ok_def)
next
  case (Inr j')
  from rerun_ok [OF Inr assms] Inr show ?thesis
    by (simp add: finish_regeneration_def job_ok_def)
qed

lemma execute_ok: "job_ok cfg j \<Longrightarrow> job_ok cfg (execute cfg j)"
proof -
  assume ok: "job_ok cfg j"
  show ?thesis
  proof (cases "status j = Running")
    case False
    with ok show ?thesis by (simp add: execute_def)
  next
    case True
    show ?thesis
    proof (cases "regeneration j")
      case (Some tgt)
      with ok have "all_present (aggregate j)" by (simp add: job_ok_def)
      from finish_regeneration_ok [OF ok this] True Some show ?thesis
        by (simp add: execute_def)
    next
      case None
      show ?thesis
      proof (cases "and_then (settle_design cfg j) (run_rounds cfg)")
        case (Inl e)
        with ok True None show ?thesis by (simp add: execute_def job_ok_def)
      next
        case (Inr j')
        then obtain j1 where s: "settle_design cfg j = Inr j1" and r: "run_rounds cfg j1 = Inr j'"
          by (auto simp: and_then_Inr)
        from ok have "sound cfg (aggregate j)" by (simp add: job_ok_def)
        from settle_design_sound [OF s this] have "sound cfg (aggregate j1)" by simp
        from run_rounds_sound [OF r this]
        have "sound cfg (aggregate j')" "aggregate j' QaReport \<noteq> None" by simp_all
        then have "sound cfg (aggregate j') \<and> all_present (aggregate j')"
          using closed_qa_all_present by (simp add: sound_def)
        with True None Inr show ?thesis by (simp add: execute_def job_ok_def)
      qed
    qed
  qed
qed

lemma regenerate_Inr:
  "regenerate jid tgt m = Inr m' \<longleftrightarrow>
   (\<exists>j. jobs m jid = Some j \<and> status j = Complete \<and>
      m' = m\<lparr>jobs := (jobs m)(jid \<mapsto> j\<lparr>status := Running, regeneration := Some tgt\<rparr>)\<rparr>)"
  by (auto simp: regenerate_def split: option.splits)

lemma sound_empty: "sound cfg (\<lambda>st. None)"
  by (simp add: sound_def all_valid_iff all_declared_iff closed_iff)

lemma perform_ok: "manager_ok cfg m \<Longrightarrow> manager_ok cfg (perform cfg c m)"
proof (cases c)
  case (SubmitSpec sp)
  assume "manager_ok cfg m"
  then show ?thesis
    using SubmitSpec by (simp add: manager_ok_def submit_def job_ok_def sound_empty)
next
  case (Begin jid)
  assume "manager_ok cfg m"
  then show ?thesis
    using Begin by (auto simp: manager_ok_def job_ok_def split: option.splits)
next
  case (Execute jid)
  assume "manager_ok cfg m"
  then show ?thesis
    using Execute by (auto simp: manager_ok_def execute_ok split: option.splits)
next
  case (Regenerate jid tgt)
  assume ok: "manager_ok cfg m"
  show ?thesis
  proof (cases "regenerate jid tgt m")
    case (Inl e)
    with ok Regenerate show ?thesis by simp
  next
    case (Inr m')
    then obtain j where j: "jobs m jid = Some j" and c: "status j = Complete"
      and m': "m' = m\<lparr>jobs := (jobs m)(jid \<mapsto> j\<lparr>status := Running, regeneration := Some tgt\<rparr>)\<rparr>"
      unfolding regenerate_Inr by blast
    from ok j have "job_ok cfg j" by (simp add: manager_ok_def)
    with c have "job_ok cfg (j\<lparr>status := Running, regeneration := Some tgt\<rparr>)"
      by (simp add: job_ok_def)
    with ok show ?thesis
      using Regenerate Inr by (simp add: m' manager_ok_def)
  qed
qed

lemma perform_all_ok: "manager_ok cfg m \<Longrightarrow> manager_ok cfg (perform_all cfg cs m)"
  by (induction cs arbitrary: m) (simp_all add: perform_ok)

lemma empty_manager_ok: "manager_ok cfg empty_manager"
  by (simp add: manager_ok_def empty_manager_def)


lemma stage_key_eq: "(stage_key a = stage_key b) = (a = b)"
  by (cases a; cases b) simp_all

lemma serialize_entries:
  "map_of (concat (map (\<lambda>st. case agg st of None \<Rightarrow> [] | Some v \<Rightarrow> [(stage_key st, v)]) sts))
     (stage_key s) = (if s \<in> set sts then agg s else None)"
proof (induction sts)
  case Nil
  then show ?case by simp
next
  case (Cons a sts)
  then show ?case
    by (cases "agg a") (simp_all add: stage_key_eq)
qed

lemma serialize_lookup: "map_of (own_props (serialize agg)) (stage_key st) = agg st"
  using serialize_entries [of agg required_stages st]
  by (simp add: serialize_def stages_UNIV)

lemma status_name_complete: "status_name s = ''complete'' \<longleftrightarrow> s = Complete"
  by (cases s) simp_all

lemma status_response_complete:
  "get_prop (status_response j) ''status'' = Some (Str ''complete'') \<longleftrightarrow> status j = Complete"
  by (simp add: status_response_def status_name_complete)

lemma status_response_of_complete:
  "status j = Complete \<Longrightarrow>
   status_response j = Obj [(''status'', Str ''complete''), (''result'', serialize (aggregate j))]"
  by (simp add: status_response_def split: option.splits)

lemma reported_complete:
  assumes "getStatus (perform_all cfg commands empty_manager) jid = Some response"
    and "get_prop response ''status'' = Some (Str ''complete'')"
  shows "\<exists>j::job. response =
           Obj [(''status'', Str ''complete''), (''result'', serialize (aggregate j))] \<and>
         all_present (aggregate j) \<and> all_valid cfg (aggregate j) \<and>
         all_declared (aggregate j)"
proof -
  from assms(1) obtain j where j: "jobs (perform_all cfg commands empty_manager) jid = Some j"
    and r: "response = status_response j"
    by (auto simp: getStatus_def)
  from assms(2) r have c: "status j = Complete"
    by (simp add: status_response_complete)
  have "manager_ok cfg (perform_all cfg commands empty_manager)"
    by (rule perform_all_ok [OF empty_manager_ok])
  with j have "job_ok cfg j" by (simp add: manager_ok_def)
  with c have "all_present (aggregate j)" "all_valid cfg (aggregate j)"
    "all_declared (aggregate j)"
    by (simp_all add: job_ok_def sound_def)
  with r status_response_of_complete [OF c]
  have concl:
    "response = Obj [(''status'', Str ''complete''), (''result'', serialize (aggregate j))] \<and>
      all_present (aggregate j) \<and> all_valid cfg (aggregate j) \<and>
      all_declared (aggregate j)"
    by simp
  show ?thesis
    by (rule exI [of _ j]) (rule concl)
qed

text \<open>
  C1, on the engine as the specification describes it. Whatever commands the job manager
  has performed, a status response that says \<^verbatim>\<open>complete\<close> carries as its result the
  serialized aggregate of a job in which every one of the six required stages has a
  result, each meeting its stage's declared schema, and each is found under its stage
  key in that result. So \<^verbatim>\<open>complete\<close> is never reported for a job that lacks a
  required stage's result. The sample game the client shows in place of a result has
  the six keys as well.
\<close>

theorem complete_status_has_every_stage:
  assumes "getStatus (perform_all cfg commands empty_manager) jid = Some response"
    and "get_prop response ''status'' = Some (Str ''complete'')"
  shows "(\<exists>agg. get_prop response ''result'' = Some (serialize agg) \<and>
     all_present agg \<and> all_valid cfg agg \<and>
     list_all
       (\<lambda>st. case map_of (own_props (serialize agg)) (stage_key st) of
                None \<Rightarrow> False
              | Some v \<Rightarrow> schema cfg st v)
       required_stages) \<and>
     list_all (\<lambda>st. map_of (own_props dummyGameState) (stage_key st) \<noteq> None) required_stages"
proof -
  from reported_complete [OF assms] obtain j :: job where
    r: "response = Obj [(''status'', Str ''complete''), (''result'', serialize (aggregate j))]"
    and p: "all_present (aggregate j)" and v: "all_valid cfg (aggregate j)"
    by blast
  have "case map_of (own_props (serialize (aggregate j))) (stage_key st) of
        None \<Rightarrow> False
      | Some v \<Rightarrow> schema cfg st v" for st
  proof -
    from p have "aggregate j st \<noteq> None" by (simp add: all_present_iff)
    then obtain w where w: "aggregate j st = Some w" by auto
    with v have "schema cfg st w" by (simp add: all_valid_iff)
    with w show ?thesis by (simp add: serialize_lookup)
  qed
  then have "list_all
       (\<lambda>st. case map_of (own_props (serialize (aggregate j))) (stage_key st) of
                None \<Rightarrow> False
              | Some v \<Rightarrow> schema cfg st v)
       required_stages"
    by (simp add: list_all_iff)
  with r p v have concl: "get_prop response ''result'' = Some (serialize (aggregate j)) \<and>
     all_present (aggregate j) \<and> all_valid cfg (aggregate j) \<and>
     list_all
       (\<lambda>st. case map_of (own_props (serialize (aggregate j))) (stage_key st) of
                None \<Rightarrow> False
              | Some v \<Rightarrow> schema cfg st v)
       required_stages"
    by simp
  have engine: "\<exists>agg. get_prop response ''result'' = Some (serialize agg) \<and>
     all_present agg \<and> all_valid cfg agg \<and>
     list_all
       (\<lambda>st. case map_of (own_props (serialize agg)) (stage_key st) of
                None \<Rightarrow> False
              | Some v \<Rightarrow> schema cfg st v)
       required_stages"
    by (rule exI [of _ "aggregate j"]) (rule concl)
  have sample:
    "list_all (\<lambda>st. map_of (own_props dummyGameState) (stage_key st) \<noteq> None) required_stages"
    by (simp add: dummyGameState_def required_stages_def)
  from engine sample show ?thesis by (rule conjI)
qed

lemma sample_run:
  "getStatus (perform_all sample_config [SubmitSpec space_form, Begin 0, Execute 0] empty_manager) 0
   = Some (status_response sample_job)"
  by code_simp

theorem complete_status_has_every_stage_witness:
  "getStatus (perform_all sample_config [SubmitSpec space_form, Begin 0, Execute 0] empty_manager) 0
     = Some (status_response sample_job) \<and>
   get_prop (status_response sample_job) ''status'' = Some (Str ''complete'') \<and>
   (\<exists>agg. get_prop (status_response sample_job) ''result'' = Some (serialize agg) \<and>
      all_present agg \<and> all_valid sample_config agg)"
proof -
  have c: "get_prop (status_response sample_job) ''status'' = Some (Str ''complete'')"
    by (simp add: status_response_def sample_job_def)
  from complete_status_has_every_stage [OF sample_run c, THEN conjunct1] obtain agg where
    "get_prop (status_response sample_job) ''result'' = Some (serialize agg) \<and>
     all_present agg \<and> all_valid sample_config agg \<and>
     list_all
       (\<lambda>st. case map_of (own_props (serialize agg)) (stage_key st) of
                None \<Rightarrow> False
              | Some v \<Rightarrow> schema sample_config st v)
       required_stages" ..
  then have part: "get_prop (status_response sample_job) ''result'' = Some (serialize agg) \<and>
     all_present agg \<and> all_valid sample_config agg"
    by simp
  have ex: "\<exists>agg. get_prop (status_response sample_job) ''result'' = Some (serialize agg) \<and>
     all_present agg \<and> all_valid sample_config agg"
    by (rule exI [of _ agg]) (rule part)
  show ?thesis
    by (rule conjI [OF sample_run conjI [OF c ex]])
qed

lemma feedback_round_version:
  assumes "feedback_round cfg j = Inr j'" and "unresolved j"
  shows "version j' = version j + 2"
proof -
  from assms(2) obtain review where b: "aggregate j BalanceAnalysis = Some review"
    by (auto simp: unresolved_def split: option.splits)
  with assms(1) obtain j1 where
    a: "run_stage cfg GameDesign
          [(''suggested_card_changes'', Arr (suggested_changes review))] j = Inr j1"
    and c: "run_stage cfg BalanceAnalysis [] j1 = Inr j'"
    by (auto simp: feedback_round_def and_then_Inr)
  from run_stage_Inr [OF a] run_stage_Inr [OF c] show ?thesis by auto
qed

lemma balance_loop_rounds:
  "\<exists>k\<le>n. balance_loop cfg n j = feedback_rounds cfg k j \<and>
     (\<forall>j'. balance_loop cfg n j = Inr j' \<longrightarrow>
        version j' = version j + 2 * k \<and> (k < n \<longrightarrow> \<not> unresolved j'))"
proof (induction n arbitrary: j)
  case 0
  show ?case by (intro exI [of _ 0]) simp
next
  case (Suc n)
  show ?case
  proof (cases "unresolved j")
    case False
    then show ?thesis by (intro exI [of _ 0]) simp
  next
    case True
    show ?thesis
    proof (cases "feedback_round cfg j")
      case (Inl e)
      with True show ?thesis
        by (intro exI [of _ "Suc 0"]) (simp add: and_then_def)
    next
      case (Inr j1)
      from Suc.IH [of j1] obtain k where k: "k \<le> n"
        and eq: "balance_loop cfg n j1 = feedback_rounds cfg k j1"
        and fin: "\<And>j'. balance_loop cfg n j1 = Inr j' \<Longrightarrow>
          version j' = version j1 + 2 * k \<and> (k < n \<longrightarrow> \<not> unresolved j')"
        by blast
      from feedback_round_version [OF Inr True] have v: "version j1 = version j + 2" .
      show ?thesis
      proof (intro exI [of _ "Suc k"] conjI allI impI)
        show "Suc k \<le> Suc n" using k by simp
        show "balance_loop cfg (Suc n) j = feedback_rounds cfg (Suc k) j"
          using True Inr eq by (simp add: and_then_def)
      next
        fix j'
        assume "balance_loop cfg (Suc n) j = Inr j'"
        then have l: "balance_loop cfg n j1 = Inr j'"
          using True Inr by (simp add: and_then_def)
        from fin [OF l] v show "version j' = version j + 2 * Suc k" by simp
        assume "Suc k < Suc n"
        with fin [OF l] show "\<not> unresolved j'" by simp
      qed
    qed
  qed
qed

text \<open>
  C7, on the engine as the specification describes it. The default bound is 2 rounds and
  the design settles through the loop with the configured bound. A loop with bound \<open>n\<close>
  is exactly \<open>k\<close> feedback rounds for some \<open>k \<le> n\<close>; when it returns a job, the two
  results have been replaced \<open>k\<close> times each, and it stopped before the bound only if no
  suggested change was left. With the bound used up it returns the job as it is,
  whatever the review still suggests.
\<close>

theorem balance_loop_bounded:
  "max_rounds (default_config sch ag) = 2 \<and>
   balance_loop cfg 0 j = Inr j \<and>
   (\<exists>k\<le>n. balance_loop cfg n j = feedback_rounds cfg k j \<and>
      (\<forall>j'. balance_loop cfg n j = Inr j' \<longrightarrow>
         version j' = version j + 2 * k \<and> (k < n \<longrightarrow> \<not> unresolved j'))) \<and>
   settle_design cfg j =
     and_then (run_stage cfg GameDesign [] j)
       (\<lambda>j1. and_then (run_stage cfg BalanceAnalysis [] j1)
          (\<lambda>j2. balance_loop cfg (max_rounds cfg) j2))"
  using balance_loop_rounds [of n cfg j]
  by (simp add: default_config_def settle_design_def)



lemma sample_loop:
  "case balance_loop sample_config 2 sample_job of
     Inl e \<Rightarrow> False
   | Inr j' \<Rightarrow> unresolved j' \<and> version j' = 14"
  by code_simp

theorem balance_loop_bounded_witness:
  "unresolved sample_job \<and>
   (\<exists>j'. balance_loop sample_config 2 sample_job = Inr j' \<and> unresolved j' \<and>
      version j' = version sample_job + 2 * 2 \<and>
      balance_loop sample_config 2 sample_job = feedback_rounds sample_config 2 sample_job)"
proof -
  have u: "unresolved sample_job" by code_simp
  from sample_loop obtain j' :: job where r: "balance_loop sample_config 2 sample_job = Inr j'"
    and u': "unresolved j'"
    by (cases "balance_loop sample_config 2 sample_job") simp_all
  from balance_loop_bounded [of sample_schema sample_agent sample_config sample_job 2]
  obtain k where k: "k \<le> 2"
    and eq: "balance_loop sample_config 2 sample_job = feedback_rounds sample_config k sample_job"
    and fin: "\<forall>j'. balance_loop sample_config 2 sample_job = Inr j' \<longrightarrow>
        version j' = version sample_job + 2 * k \<and> (k < 2 \<longrightarrow> \<not> unresolved j')"
    by blast
  from fin r have f: "version j' = version sample_job + 2 * k" "k < 2 \<longrightarrow> \<not> unresolved j'"
    by simp_all
  from f(2) u' k have k2: "k = 2" by auto
  have concl: "balance_loop sample_config 2 sample_job = Inr j' \<and> unresolved j' \<and>
      version j' = version sample_job + 2 * 2 \<and>
      balance_loop sample_config 2 sample_job = feedback_rounds sample_config 2 sample_job"
    using r u' f(1) eq k2 by simp
  have "\<exists>j'. balance_loop sample_config 2 sample_job = Inr j' \<and> unresolved j' \<and>
      version j' = version sample_job + 2 * 2 \<and>
      balance_loop sample_config 2 sample_job = feedback_rounds sample_config 2 sample_job"
    by (rule exI [of _ j']) (rule concl)
  with u show ?thesis by (rule conjI)
qed

section \<open>Regeneration\<close>

















lemma status_response_running:
  "status j = Running \<Longrightarrow> status_response j = Obj [(''status'', Str ''running'')]"
  by (simp add: status_response_def split: option.splits)

lemma perform_Regenerate:
  assumes "jobs m jid = Some j" and "status j = Complete"
  shows "perform cfg (Regenerate jid tgt) m =
     m\<lparr>jobs := (jobs m)(jid \<mapsto> j\<lparr>status := Running, regeneration := Some tgt\<rparr>)\<rparr>"
  using assms by (simp add: regenerate_def)

lemma perform_Regenerate_Execute:
  assumes "jobs m jid = Some j" and "status j = Complete"
  shows "perform_all cfg [Regenerate jid tgt, Execute jid] m =
     m\<lparr>jobs := (jobs m)(jid \<mapsto>
          finish_regeneration cfg tgt (j\<lparr>status := Running, regeneration := Some tgt\<rparr>))\<rparr>"
  using assms by (simp add: regenerate_def execute_def)



lemma sample_manager_job:
  "jobs sample_manager 0 = Some sample_job" "status sample_job = Complete"
  "0 < next_job sample_manager"
  by (simp_all add: sample_manager_def sample_job_def)



lemma restore_complete:
  "status j = Complete \<Longrightarrow>
   j\<lparr>status := Running, regeneration := Some tgt\<rparr>\<lparr>status := Complete, regeneration := None\<rparr> =
     j\<lparr>regeneration := None\<rparr>"
  by (cases j) simp

lemma status_response_pending: "status_response (j\<lparr>regeneration := x\<rparr>) = status_response j"
  by (simp add: status_response_def split: option.splits)

lemma execute_settled: "settled j \<Longrightarrow> settled (execute cfg j)"
  by (cases "rerun cfg (the (regeneration j)) j")
    (auto simp: settled_def execute_def finish_regeneration_def)

lemma perform_settled:
  assumes "jobs m jid = Some j" and "settled j" and "jid < next_job m"
  shows "\<exists>j' :: job. jobs (perform cfg c m) jid = Some j' \<and> settled j' \<and>
     jid < next_job (perform cfg c m)"
proof (cases c)
  case (SubmitSpec sp)
  with assms show ?thesis by (simp add: submit_def)
next
  case (Begin k)
  with assms show ?thesis
    by (cases "jobs m k") (auto simp: settled_def)
next
  case (Execute k)
  with assms execute_settled [OF assms(2), of cfg] show ?thesis
    by (cases "jobs m k") auto
next
  case (Regenerate k tgt)
  show ?thesis
  proof (cases "regenerate k tgt m")
    case (Inl e)
    with assms Regenerate show ?thesis by simp
  next
    case (Inr m')
    then obtain j0 where "jobs m k = Some j0" "status j0 = Complete"
      and m': "m' = m\<lparr>jobs := (jobs m)(k \<mapsto> j0\<lparr>status := Running, regeneration := Some tgt\<rparr>)\<rparr>"
      unfolding regenerate_Inr by blast
    with assms Regenerate Inr show ?thesis
      by (auto simp: settled_def)
  qed
qed

lemma perform_all_settled:
  assumes "jobs m jid = Some j" and "settled j" and "jid < next_job m"
  shows "\<exists>j' :: job. jobs (perform_all cfg cs m) jid = Some j' \<and> settled j'"
  using assms
proof (induction cs arbitrary: m j)
  case Nil
  then show ?case by simp
next
  case (Cons c cs)
  from perform_settled [OF Cons.prems, of cfg c] obtain j1 :: job where
    "jobs (perform cfg c m) jid = Some j1" "settled j1" "jid < next_job (perform cfg c m)"
    by blast
  from Cons.IH [OF this] show ?case by simp
qed

lemma settled_not_failed: "settled j \<Longrightarrow> status j \<noteq> Failed \<and> status j \<noteq> Queued"
  by (auto simp: settled_def)

text \<open>
  C6, on the engine as the specification describes it. A regeneration requested on a
  complete job makes it running, and a second request is rejected with \<open>JobBusy\<close>
  meanwhile. When the re-run fails, the job goes back to complete: the store holds the
  job as it was, with its aggregate, version and error record, and the status query
  answers what it answered before the request, \<^verbatim>\<open>complete\<close> with the same serialized
  aggregate; this also when some of the card's stages had already produced their new
  entries before another one failed. Whatever the job manager performs afterwards, the
  job is complete or being regenerated, never failed.
\<close>

theorem regenerate_failure_keeps_complete_state:
  assumes "jobs m jid = Some j" and "status j = Complete" and "jid < next_job m"
  shows "getStatus (perform cfg (Regenerate jid tgt) m) jid =
       Some (Obj [(''status'', Str ''running'')]) \<and>
     regenerate jid other (perform cfg (Regenerate jid tgt) m) = Inl JobBusy \<and>
     (rerun cfg tgt (j\<lparr>status := Running, regeneration := Some tgt\<rparr>) = Inl e \<longrightarrow>
        perform_all cfg [Regenerate jid tgt, Execute jid] m =
          m\<lparr>jobs := (jobs m)(jid \<mapsto> j\<lparr>regeneration := None\<rparr>)\<rparr> \<and>
        getStatus (perform_all cfg [Regenerate jid tgt, Execute jid] m) jid = getStatus m jid \<and>
        getStatus (perform_all cfg [Regenerate jid tgt, Execute jid] m) jid =
          Some (Obj [(''status'', Str ''complete''), (''result'', serialize (aggregate j))])) \<and>
     (\<exists>j' :: job. jobs (perform_all cfg later m) jid = Some j' \<and> settled j' \<and>
        status j' \<noteq> Failed)"
proof -
  let ?j1 = "j\<lparr>status := Running, regeneration := Some tgt\<rparr>"
  have running: "getStatus (perform cfg (Regenerate jid tgt) m) jid =
       Some (Obj [(''status'', Str ''running'')])"
    unfolding perform_Regenerate [OF assms(1,2)]
    by (simp add: getStatus_def status_response_running)
  have busy: "regenerate jid other (perform cfg (Regenerate jid tgt) m) = Inl JobBusy"
    unfolding perform_Regenerate [OF assms(1,2)] by (simp add: regenerate_def)
  have failed: "perform_all cfg [Regenerate jid tgt, Execute jid] m =
          m\<lparr>jobs := (jobs m)(jid \<mapsto> j\<lparr>regeneration := None\<rparr>)\<rparr> \<and>
        getStatus (perform_all cfg [Regenerate jid tgt, Execute jid] m) jid = getStatus m jid \<and>
        getStatus (perform_all cfg [Regenerate jid tgt, Execute jid] m) jid =
          Some (Obj [(''status'', Str ''complete''), (''result'', serialize (aggregate j))])"
    if f: "rerun cfg tgt ?j1 = Inl e"
  proof -
    have fin: "finish_regeneration cfg tgt ?j1 = j\<lparr>regeneration := None\<rparr>"
      using f restore_complete [OF assms(2), of tgt] by (simp add: finish_regeneration_def)
    have store: "perform_all cfg [Regenerate jid tgt, Execute jid] m =
          m\<lparr>jobs := (jobs m)(jid \<mapsto> j\<lparr>regeneration := None\<rparr>)\<rparr>"
      unfolding perform_Regenerate_Execute [OF assms(1,2)] fin ..
    have same: "getStatus (perform_all cfg [Regenerate jid tgt, Execute jid] m) jid =
        getStatus m jid"
      unfolding store using assms(1) by (simp add: getStatus_def status_response_pending)
    have "getStatus m jid =
        Some (Obj [(''status'', Str ''complete''), (''result'', serialize (aggregate j))])"
      using assms(1) status_response_of_complete [OF assms(2)] by (simp add: getStatus_def)
    with store same show ?thesis by simp
  qed
  have s: "settled j" using assms(2) by (simp add: settled_def)
  from perform_all_settled [OF assms(1) s assms(3), of cfg later] obtain j' :: job where
    j': "jobs (perform_all cfg later m) jid = Some j'" "settled j'"
    by blast
  from j' settled_not_failed [OF j'(2)]
  have "jobs (perform_all cfg later m) jid = Some j' \<and> settled j' \<and> status j' \<noteq> Failed"
    by simp
  then have never: "\<exists>j' :: job. jobs (perform_all cfg later m) jid = Some j' \<and> settled j' \<and>
        status j' \<noteq> Failed"
    by (rule exI [of _ j'])
  from running busy failed never show ?thesis by blast
qed

lemma failing_rerun:
  "case rerun failing_config (SingleCard ''Nebula Worm'')
          (sample_job\<lparr>status := Running, regeneration := Some (SingleCard ''Nebula Worm'')\<rparr>) of
     Inl e \<Rightarrow> e = StageFailed CardArtwork [TransientFailure, TransientFailure, TransientFailure]
   | Inr produced \<Rightarrow> False"
  by code_simp

lemma failing_card_in:
  "case regenerate_card_in failing_config ''Nebula Worm'' (aggregate sample_job) GameDesign
          (aggregate sample_job) of
     Inl e \<Rightarrow> False
   | Inr agg \<Rightarrow> agg GameDesign \<noteq> aggregate sample_job GameDesign"
  by code_simp

theorem regenerate_failure_keeps_complete_state_witness:
  "jobs sample_manager 0 = Some sample_job \<and> status sample_job = Complete \<and>
   0 < next_job sample_manager \<and>
   rerun failing_config (SingleCard ''Nebula Worm'')
     (sample_job\<lparr>status := Running, regeneration := Some (SingleCard ''Nebula Worm'')\<rparr>) =
     Inl (StageFailed CardArtwork [TransientFailure, TransientFailure, TransientFailure]) \<and>
   (case regenerate_card_in failing_config ''Nebula Worm'' (aggregate sample_job) GameDesign
           (aggregate sample_job) of
      Inl e \<Rightarrow> False
    | Inr agg \<Rightarrow> agg GameDesign \<noteq> aggregate sample_job GameDesign) \<and>
   getStatus (perform failing_config (Regenerate 0 (SingleCard ''Nebula Worm'')) sample_manager) 0 =
     Some (Obj [(''status'', Str ''running'')]) \<and>
   regenerate 0 (WholeStage Rulebook)
     (perform failing_config (Regenerate 0 (SingleCard ''Nebula Worm'')) sample_manager) =
     Inl JobBusy \<and>
   getStatus
     (perform_all failing_config [Regenerate 0 (SingleCard ''Nebula Worm''), Execute 0]
        sample_manager) 0 = getStatus sample_manager 0 \<and>
   getStatus
     (perform_all failing_config [Regenerate 0 (SingleCard ''Nebula Worm''), Execute 0]
        sample_manager) 0 =
     Some (Obj [(''status'', Str ''complete''), (''result'', serialize (aggregate sample_job))]) \<and>
   (\<exists>j' :: job.
      jobs (perform_all failing_config
              [Regenerate 0 (SingleCard ''Nebula Worm''), Execute 0,
               Regenerate 0 (WholeStage CardArtwork), Execute 0] sample_manager) 0 = Some j' \<and>
      status j' \<noteq> Failed)"
proof -
  let ?t = "SingleCard ''Nebula Worm''"
  let ?e = "StageFailed CardArtwork [TransientFailure, TransientFailure, TransientFailure]"
  from failing_rerun have
    r: "rerun failing_config ?t (sample_job\<lparr>status := Running, regeneration := Some ?t\<rparr>) = Inl ?e"
    by (cases "rerun failing_config ?t (sample_job\<lparr>status := Running, regeneration := Some ?t\<rparr>)")
      simp_all
  note t = regenerate_failure_keeps_complete_state [OF sample_manager_job,
      of failing_config ?t "WholeStage Rulebook" ?e
        "[Regenerate 0 ?t, Execute 0, Regenerate 0 (WholeStage CardArtwork), Execute 0]"]
  from t have running:
    "getStatus (perform failing_config (Regenerate 0 ?t) sample_manager) 0 =
       Some (Obj [(''status'', Str ''running'')])"
    by (rule conjunct1)
  from t have busy:
    "regenerate 0 (WholeStage Rulebook) (perform failing_config (Regenerate 0 ?t) sample_manager) =
       Inl JobBusy"
    by (rule conjunct2 [THEN conjunct1])
  from t r have same:
    "getStatus (perform_all failing_config [Regenerate 0 ?t, Execute 0] sample_manager) 0 =
       getStatus sample_manager 0"
    and answer:
    "getStatus (perform_all failing_config [Regenerate 0 ?t, Execute 0] sample_manager) 0 =
       Some (Obj [(''status'', Str ''complete''), (''result'', serialize (aggregate sample_job))])"
    by blast+
  from t obtain j' :: job where
    j': "jobs (perform_all failing_config
              [Regenerate 0 ?t, Execute 0, Regenerate 0 (WholeStage CardArtwork), Execute 0]
              sample_manager) 0 = Some j'"
    and nf: "status j' \<noteq> Failed"
    by blast
  have later: "\<exists>j' :: job.
      jobs (perform_all failing_config
              [Regenerate 0 ?t, Execute 0, Regenerate 0 (WholeStage CardArtwork), Execute 0]
              sample_manager) 0 = Some j' \<and>
      status j' \<noteq> Failed"
    by (rule exI [of _ j']) (rule conjI [OF j' nf])
  show ?thesis
    by (rule conjI [OF sample_manager_job(1) conjI [OF sample_manager_job(2)
          conjI [OF sample_manager_job(3) conjI [OF r conjI [OF failing_card_in
          conjI [OF running conjI [OF busy conjI [OF same conjI [OF answer later]]]]]]]]])
qed

section \<open>The shapes of the sample game\<close>

lemma dummy_game_design_shape: "game_design_shape dummy_game_design"
  by (simp add: game_design_shape_def dummy_game_design_def has_field_def has_list_def
      card_record_def get_prop_Obj del: get_prop.simps)

lemma dummy_fields:
  "get_prop dummyGameState ''game_design'' = Some dummy_game_design"
  "get_prop dummyGameState ''card_artwork'' = Some dummy_card_artwork"
  by (simp_all add: dummyGameState_def get_prop_Obj del: get_prop.simps)

lemma dummy_artwork_no_mapping: "\<not> artwork_mapping dummy_card_artwork"
  by (simp add: artwork_mapping_def dummy_card_artwork_def)

lemma dummy_artwork_no_shape: "\<not> card_artwork_shape dummy_card_artwork"
  using dummy_artwork_no_mapping by (simp add: card_artwork_shape_def dummy_card_artwork_field artwork_mapping_def)

lemma dummy_artwork_no_guard: "\<not> card_artwork_guard dummyGameState"
  by (simp add: card_artwork_guard_def dummy_fields dummy_card_artwork_field del: get_prop.simps)

lemma dummy_artwork_records: "case dummy_card_artwork of
      Arr records \<Rightarrow>
        list_all (\<lambda>r. has_field r ''card_name'' \<and> has_field r ''artwork_description'' \<and>
                      \<not> has_field r ''title_font'' \<and> \<not> has_field r ''body_font'' \<and>
                      \<not> has_list r ''iconography'') records
    | _ \<Rightarrow> False"
  by (simp add: dummy_card_artwork_def has_field_def has_list_def get_prop_Obj del: get_prop.simps)

lemma get_prop_serialize:
  "agg st = Some v \<Longrightarrow> get_prop (serialize agg) (stage_key st) = Some v"
proof -
  assume a: "agg st = Some v"
  obtain kvs where k: "serialize agg = Obj kvs"
    by (simp add: serialize_def)
  with serialize_lookup [of agg st] a have "map_of kvs (stage_key st) = Some v"
    by simp
  then show ?thesis
    unfolding k get_prop_Obj by simp
qed

lemma complete_game_design:
  assumes "getStatus (perform_all cfg commands empty_manager) jid = Some response"
    and "get_prop response ''status'' = Some (Str ''complete'')"
  shows "\<exists>result design. get_prop response ''result'' = Some result \<and>
     get_prop result ''game_design'' = Some design \<and> game_design_shape design"
proof -
  from reported_complete [OF assms] obtain j :: job where
    r: "response = Obj [(''status'', Str ''complete''), (''result'', serialize (aggregate j))]"
    and p: "all_present (aggregate j)" and v: "all_declared (aggregate j)"
    by blast
  from p have "aggregate j GameDesign \<noteq> None" by (simp add: all_present_iff)
  then obtain d where d: "aggregate j GameDesign = Some d" by auto
  with v have "declared_shape GameDesign d" unfolding all_declared_iff by blast
  then have s: "game_design_shape d" by simp
  from get_prop_serialize [of "aggregate j" GameDesign d, OF d] have g: "get_prop (serialize (aggregate j)) ''game_design'' = Some d"
    by simp
  have concl: "get_prop response ''result'' = Some (serialize (aggregate j)) \<and>
     get_prop (serialize (aggregate j)) ''game_design'' = Some d \<and> game_design_shape d"
    using r g s by simp
  show ?thesis
    by (rule exI [of _ "serialize (aggregate j)"], rule exI [of _ d]) (rule concl)
qed

text \<open>
  C8. The \<^verbatim>\<open>game_design\<close> entry of \<^verbatim>\<open>dummyGameState\<close>, the one complete state the sources
  hold, has \<^verbatim>\<open>game_name\<close>, \<^verbatim>\<open>concept\<close>, a list \<^verbatim>\<open>core_mechanics\<close>, \<^verbatim>\<open>win_condition\<close>,
  \<^verbatim>\<open>game_flow\<close> and a list \<^verbatim>\<open>starter_cards\<close> of records that each carry \<^verbatim>\<open>name\<close>, \<^verbatim>\<open>type\<close>,
  \<^verbatim>\<open>cost\<close> and \<^verbatim>\<open>text\<close>. On the engine as the specification describes it, whatever the
  configured schemas and agents and whatever commands the job manager has performed,
  regenerations among them, the result of every status response that says \<^verbatim>\<open>complete\<close>
  has a \<^verbatim>\<open>game_design\<close> entry of this shape.
\<close>

theorem game_design_entry_shape:
  "get_prop dummyGameState ''game_design'' = Some dummy_game_design \<and>
   game_design_shape dummy_game_design \<and>
   (getStatus (perform_all cfg commands empty_manager) jid = Some response \<and>
    get_prop response ''status'' = Some (Str ''complete'') \<longrightarrow>
      (\<exists>result design. get_prop response ''result'' = Some result \<and>
         get_prop result ''game_design'' = Some design \<and> game_design_shape design))"
  using dummy_fields(1) dummy_game_design_shape complete_game_design [of cfg commands jid response]
  by blast

theorem game_design_entry_shape_witness:
  "getStatus (perform_all sample_config [SubmitSpec space_form, Begin 0, Execute 0] empty_manager) 0
     = Some (status_response sample_job) \<and>
   get_prop (status_response sample_job) ''status'' = Some (Str ''complete'') \<and>
   (\<exists>result design. get_prop (status_response sample_job) ''result'' = Some result \<and>
      get_prop result ''game_design'' = Some design \<and> game_design_shape design)"
proof -
  have c: "get_prop (status_response sample_job) ''status'' = Some (Str ''complete'')"
    by (simp add: status_response_def sample_job_def)
  from game_design_entry_shape
    [of sample_config "[SubmitSpec space_form, Begin 0, Execute 0]" 0 "status_response sample_job"]
    sample_run c
  obtain result design where
    "get_prop (status_response sample_job) ''result'' = Some result"
    "get_prop result ''game_design'' = Some design" "game_design_shape design"
    by blast
  then have "get_prop (status_response sample_job) ''result'' = Some result \<and>
      get_prop result ''game_design'' = Some design \<and> game_design_shape design"
    by simp
  then have "\<exists>result design. get_prop (status_response sample_job) ''result'' = Some result \<and>
      get_prop result ''game_design'' = Some design \<and> game_design_shape design"
    by (intro exI [of _ result] exI [of _ design])
  with sample_run c show ?thesis by (intro conjI)
qed

text \<open>
  C2 fails on the sample game the application ships and shows: the \<^verbatim>\<open>card_artwork\<close>
  entry of \<^verbatim>\<open>dummyGameState\<close> is an array of records that carry \<^verbatim>\<open>card_name\<close> and
  \<^verbatim>\<open>artwork_description\<close> and neither fonts nor iconography. It is not a mapping from
  card name to artwork record, and it holds none under \<^verbatim>\<open>artwork\<close>, where the viewer
  looks for it; the viewer's guard for the Card Artwork section is false on it.
\<close>

theorem dummy_card_artwork_is_no_mapping:
  "get_prop dummyGameState ''card_artwork'' = Some dummy_card_artwork \<and>
   \<not> artwork_mapping dummy_card_artwork \<and>
   \<not> card_artwork_shape dummy_card_artwork \<and>
   \<not> card_artwork_guard dummyGameState \<and>
   (case dummy_card_artwork of
      Arr records \<Rightarrow>
        list_all (\<lambda>r. has_field r ''card_name'' \<and> has_field r ''artwork_description'' \<and>
                      \<not> has_field r ''title_font'' \<and> \<not> has_field r ''body_font'' \<and>
                      \<not> has_list r ''iconography'') records
    | _ \<Rightarrow> False)"
  using dummy_fields(2) dummy_artwork_no_mapping dummy_artwork_no_shape dummy_artwork_no_guard
    dummy_artwork_records by (intro conjI)

end
